theory Spec2Isabelle
  imports Main "HOL-Library.Sublist"
begin

section \<open>Python values used by \<open>AppDemonstrator\<close>\<close>

text \<open>
  The embedding follows \<open>src/agent/app_demonstrator.py\<close>. Python strings are HOL
  strings, Python integers are \<open>int\<close>. The helpers below are the string operations
  the class uses: \<open>sub in s\<close>, \<open>s.split(c)\<close>, \<open>s.lower()\<close>, \<open>s.title()\<close>,
  \<open>str(n)\<close>, \<open>"\n".join(xs)\<close> and \<open>os.path.join\<close> (POSIX form). Case
  conversion covers the ASCII letters.
\<close>

fun py_in :: "string \<Rightarrow> string \<Rightarrow> bool" where
  "py_in sub [] = (sub = [])"
| "py_in sub (c # cs) = (prefix sub (c # cs) \<or> py_in sub cs)"

fun split_on :: "char \<Rightarrow> string \<Rightarrow> string list" where
  "split_on sep [] = [[]]"
| "split_on sep (c # cs) =
     (if c = sep then [] # split_on sep cs
      else (case split_on sep cs of
              [] \<Rightarrow> [[c]]
            | p # ps \<Rightarrow> (c # p) # ps))"

definition upper_letters :: string where
  "upper_letters = ''ABCDEFGHIJKLMNOPQRSTUVWXYZ''"

definition lower_letters :: string where
  "lower_letters = ''abcdefghijklmnopqrstuvwxyz''"

definition is_upper :: "char \<Rightarrow> bool" where
  "is_upper c = (c \<in> set upper_letters)"

definition is_lower :: "char \<Rightarrow> bool" where
  "is_lower c = (c \<in> set lower_letters)"

definition lower_char :: "char \<Rightarrow> char" where
  "lower_char c = (case map_of (zip upper_letters lower_letters) c of Some l \<Rightarrow> l | None \<Rightarrow> c)"

definition upper_char :: "char \<Rightarrow> char" where
  "upper_char c = (case map_of (zip lower_letters upper_letters) c of Some u \<Rightarrow> u | None \<Rightarrow> c)"

definition py_lower :: "string \<Rightarrow> string" where
  "py_lower s = map lower_char s"

text \<open>\<open>s.title()\<close>: the flag says whether the previous character was a letter.\<close>

fun title_from :: "bool \<Rightarrow> string \<Rightarrow> string" where
  "title_from prev [] = []"
| "title_from prev (c # cs) =
     (if is_upper c \<or> is_lower c
      then (if prev then lower_char c else upper_char c) # title_from True cs
      else c # title_from False cs)"

definition py_title :: "string \<Rightarrow> string" where
  "py_title s = title_from False s"

definition digit_char :: "nat \<Rightarrow> char" where
  "digit_char n = ''0123456789'' ! n"

fun str_nat :: "nat \<Rightarrow> string" where
  "str_nat n = (if n < 10 then [digit_char n] else str_nat (n div 10) @ [digit_char (n mod 10)])"

declare str_nat.simps [simp del]

definition py_str :: "int \<Rightarrow> string" where
  "py_str i = (if i < 0 then CHR ''-'' # str_nat (nat (- i)) else str_nat (nat i))"

fun join_lines :: "string list \<Rightarrow> string" where
  "join_lines [] = []"
| "join_lines [x] = x"
| "join_lines (x # y # ys) = x @ [CHR 0x0A] @ join_lines (y # ys)"

definition path_join :: "string \<Rightarrow> string \<Rightarrow> string" where
  "path_join a b =
     (if b \<noteq> [] \<and> hd b = CHR ''/'' then b
      else if a = [] \<or> last a = CHR ''/'' then a @ b
      else a @ ''/'' @ b)"

section \<open>Exceptions, the outside world, and the object state\<close>

text \<open>
  A raised exception is a value: its class, as far as the \<open>except\<close> clauses of the
  source tell classes apart, and \<open>str(e)\<close>. Only subclasses of \<open>Exception\<close> are
  modelled.
\<close>

datatype exn_class = CalledProcessError | RequestException | IndexError | KeyError | OtherException

datatype exn = Exn exn_class string

fun exn_class_of :: "exn \<Rightarrow> exn_class" where
  "exn_class_of (Exn c m) = c"

fun exn_str :: "exn \<Rightarrow> string" where
  "exn_str (Exn c m) = m"

datatype http_method = GET | POST

text \<open>
  Every call that leaves the interpreter is recorded in \<open>events\<close>, in call order.
  An HTTP request records the \<open>timeout=\<close> argument it was issued with and what came
  back (a status code, or the exception raised); \<open>Popen\<close> records the process id it
  returned, \<open>ChildrenOf\<close> the descendants \<open>psutil\<close> listed.
\<close>

datatype event =
    Run "string list" "string option"
  | Popen "string list" string "(string \<times> string) list" "exn + nat"
  | Http http_method string "nat option" "exn + int"
  | Sleep nat
  | ChildrenOf nat "exn + nat list"
  | Terminate nat
  | WriteFile string string
  | OpenBrowser string
  | LogError string

text \<open>
  The outside world answers each call. The answer may depend on when the call is made
  (\<open>tick\<close>, the number of answered calls so far) and on its arguments, so that any
  behaviour of the file system, the subprocesses and the network is some \<open>env\<close>.
\<close>

record env =
  executable :: string
  platform :: string
  exists_at :: "nat \<Rightarrow> string \<Rightarrow> bool"
  run_at :: "nat \<Rightarrow> string list \<Rightarrow> string option \<Rightarrow> exn option"
  popen_at :: "nat \<Rightarrow> string list \<Rightarrow> string \<Rightarrow> exn + nat"
  http_at :: "nat \<Rightarrow> http_method \<Rightarrow> string \<Rightarrow> exn + int"
  children_at :: "nat \<Rightarrow> nat \<Rightarrow> exn + nat list"
  terminate_at :: "nat \<Rightarrow> nat \<Rightarrow> exn option"
  write_at :: "nat \<Rightarrow> string \<Rightarrow> string \<Rightarrow> exn option"
  browser_at :: "nat \<Rightarrow> string \<Rightarrow> exn option"

text \<open>
  The fields of \<open>AppDemonstrator\<close>. \<open>fix_attempts = None\<close> means the attribute
  \<open>_fix_attempts\<close> has not been created yet (\<open>hasattr\<close> is false); the dictionary
  keeps insertion order, which the report relies on. \<open>environ_port\<close> is
  \<open>os.environ['PORT']\<close>.
\<close>

record demonstrator =
  project_dir :: string
  backend_process :: "nat option"
  frontend_process :: "nat option"
  backend_port :: int
  frontend_port :: int
  backend_url :: string
  frontend_url :: string
  fix_attempts :: "(string \<times> string list) list option"
  environ_port :: "string option"
  tick :: nat
  events :: "event list"

type_synonym 'a outcome = "(exn + 'a) \<times> demonstrator"

definition init :: "string \<Rightarrow> string option \<Rightarrow> demonstrator" where
  "init dir port_var =
     \<lparr> project_dir = dir,
       backend_process = None,
       frontend_process = None,
       backend_port = 5000,
       frontend_port = 3000,
       backend_url = ''http://localhost:'' @ py_str 5000,
       frontend_url = ''http://localhost:'' @ py_str 3000,
       fix_attempts = None,
       environ_port = port_var,
       tick = 0,
       events = [] \<rparr>"

subsection \<open>Library calls\<close>

definition os_path_exists :: "env \<Rightarrow> string \<Rightarrow> demonstrator \<Rightarrow> bool \<times> demonstrator" where
  "os_path_exists E p d = (exists_at E (tick d) p, d\<lparr>tick := tick d + 1\<rparr>)"

definition subprocess_run ::
  "env \<Rightarrow> string list \<Rightarrow> string option \<Rightarrow> demonstrator \<Rightarrow> exn option \<times> demonstrator" where
  "subprocess_run E cmd cwd d =
     (run_at E (tick d) cmd cwd,
      d\<lparr>tick := tick d + 1, events := events d @ [Run cmd cwd]\<rparr>)"

definition subprocess_Popen ::
  "env \<Rightarrow> string list \<Rightarrow> string \<Rightarrow> (string \<times> string) list \<Rightarrow> demonstrator
     \<Rightarrow> (exn + nat) \<times> demonstrator" where
  "subprocess_Popen E cmd cwd vars d =
     (let r = popen_at E (tick d) cmd cwd
      in (r, d\<lparr>tick := tick d + 1, events := events d @ [Popen cmd cwd vars r]\<rparr>))"

definition requests_call ::
  "env \<Rightarrow> http_method \<Rightarrow> string \<Rightarrow> demonstrator \<Rightarrow> (exn + int) \<times> demonstrator" where
  "requests_call E m url d =
     (let r = http_at E (tick d) m url
      in (r, d\<lparr>tick := tick d + 1, events := events d @ [Http m url None r]\<rparr>))"

definition time_sleep :: "nat \<Rightarrow> demonstrator \<Rightarrow> demonstrator" where
  "time_sleep n d = d\<lparr>events := events d @ [Sleep n]\<rparr>"

definition psutil_children :: "env \<Rightarrow> nat \<Rightarrow> demonstrator \<Rightarrow> (exn + nat list) \<times> demonstrator" where
  "psutil_children E pid d =
     (let r = children_at E (tick d) pid
      in (r, d\<lparr>tick := tick d + 1, events := events d @ [ChildrenOf pid r]\<rparr>))"

definition process_terminate :: "env \<Rightarrow> nat \<Rightarrow> demonstrator \<Rightarrow> exn option \<times> demonstrator" where
  "process_terminate E pid d =
     (terminate_at E (tick d) pid,
      d\<lparr>tick := tick d + 1, events := events d @ [Terminate pid]\<rparr>)"

definition write_file :: "env \<Rightarrow> string \<Rightarrow> string \<Rightarrow> demonstrator \<Rightarrow> exn option \<times> demonstrator" where
  "write_file E path content d =
     (write_at E (tick d) path content,
      d\<lparr>tick := tick d + 1, events := events d @ [WriteFile path content]\<rparr>)"

definition webbrowser_open :: "env \<Rightarrow> string \<Rightarrow> demonstrator \<Rightarrow> exn option \<times> demonstrator" where
  "webbrowser_open E url d =
     (browser_at E (tick d) url,
      d\<lparr>tick := tick d + 1, events := events d @ [OpenBrowser url]\<rparr>)"

definition logger_error :: "string \<Rightarrow> demonstrator \<Rightarrow> demonstrator" where
  "logger_error msg d = d\<lparr>events := events d @ [LogError msg]\<rparr>"


section \<open>Installing dependencies and starting the servers\<close>

text \<open>
  \<open>_install_dependencies\<close> (lines 28-44). The body of the \<open>try\<close> is
  \<open>install_dependencies_try\<close>; only \<open>CalledProcessError\<close> is caught, any other
  exception leaves the method.
\<close>

definition install_dependencies_try :: "env \<Rightarrow> demonstrator \<Rightarrow> (bool \<times> string) outcome" where
  "install_dependencies_try E d =
     (let backend_dir = path_join (project_dir d) ''backend'';
          (has_requirements, d1) = os_path_exists E (path_join backend_dir ''requirements.txt'') d;
          (r1, d2) = (if has_requirements
                      then subprocess_run E
                             [executable E, ''-m'', ''pip'', ''install'', ''-r'', ''requirements.txt'']
                             (Some backend_dir) d1
                      else (None, d1))
      in case r1 of
           Some e \<Rightarrow> (Inl e, d2)
         | None \<Rightarrow>
             (let frontend_dir = path_join (project_dir d2) ''frontend'';
                  (has_package, d3) = os_path_exists E (path_join frontend_dir ''package.json'') d2;
                  (r2, d4) = (if has_package
                              then subprocess_run E [''npm'', ''install''] (Some frontend_dir) d3
                              else (None, d3))
              in case r2 of
                   Some e \<Rightarrow> (Inl e, d4)
                 | None \<Rightarrow> (Inr (True, ''Dependencies installed successfully''), d4)))"

definition install_dependencies :: "env \<Rightarrow> demonstrator \<Rightarrow> (bool \<times> string) outcome" where
  "install_dependencies E d =
     (case install_dependencies_try E d of
        (Inl e, d1) \<Rightarrow>
          if exn_class_of e = CalledProcessError
          then (Inr (False, ''Failed to install dependencies: '' @ exn_str e), d1)
          else (Inl e, d1)
      | (Inr r, d1) \<Rightarrow> (Inr r, d1))"

text \<open>
  The readiness loops of \<open>_start_backend\<close> (lines 63-69) and \<open>_start_frontend\<close>
  (lines 89-95): \<open>for _ in range(n)\<close>, one GET per round, return on status 200,
  \<open>time.sleep(1)\<close> in the \<open>except requests.RequestException\<close> branch only. The result
  \<open>True\<close> is the \<open>return True, ...\<close> inside the loop, \<open>False\<close> is falling out of it.
\<close>

fun poll_ready :: "env \<Rightarrow> string \<Rightarrow> nat \<Rightarrow> demonstrator \<Rightarrow> bool outcome" where
  "poll_ready E url 0 d = (Inr False, d)"
| "poll_ready E url (Suc n) d =
     (case requests_call E GET url d of
        (Inr status_code, d1) \<Rightarrow>
          if status_code = 200 then (Inr True, d1) else poll_ready E url n d1
      | (Inl e, d1) \<Rightarrow>
          if exn_class_of e = RequestException then poll_ready E url n (time_sleep 1 d1)
          else (Inl e, d1))"

definition start_backend_try :: "env \<Rightarrow> demonstrator \<Rightarrow> (bool \<times> string) outcome" where
  "start_backend_try E d =
     (let backend_dir = path_join (project_dir d) ''backend'';
          (r, d1) = subprocess_Popen E [executable E, ''-m'', ''flask'', ''run''] backend_dir
                      [(''FLASK_APP'', ''app''), (''FLASK_ENV'', ''development'')] d
      in case r of
           Inl e \<Rightarrow> (Inl e, d1)
         | Inr pid \<Rightarrow>
             (let d2 = d1\<lparr>backend_process := Some pid\<rparr>
              in case poll_ready E (backend_url d2 @ ''/health'') 30 d2 of
                   (Inl e, d3) \<Rightarrow> (Inl e, d3)
                 | (Inr True, d3) \<Rightarrow> (Inr (True, ''Backend started successfully''), d3)
                 | (Inr False, d3) \<Rightarrow> (Inr (False, ''Backend failed to start within timeout''), d3)))"

definition start_backend :: "env \<Rightarrow> demonstrator \<Rightarrow> (bool \<times> string) outcome" where
  "start_backend E d =
     (case start_backend_try E d of
        (Inl e, d1) \<Rightarrow> (Inr (False, ''Failed to start backend: '' @ exn_str e), d1)
      | (Inr r, d1) \<Rightarrow> (Inr r, d1))"

text \<open>
  \<open>_start_frontend\<close> (lines 75-99). In \<open>{'PORT': str(self.frontend_port), **os.environ}\<close>
  a \<open>PORT\<close> already in the environment wins.
\<close>

definition start_frontend_try :: "env \<Rightarrow> demonstrator \<Rightarrow> (bool \<times> string) outcome" where
  "start_frontend_try E d =
     (let frontend_dir = path_join (project_dir d) ''frontend'';
          port_var = (case environ_port d of Some v \<Rightarrow> v | None \<Rightarrow> py_str (frontend_port d));
          (r, d1) = subprocess_Popen E [''npm'', ''start''] frontend_dir [(''PORT'', port_var)] d
      in case r of
           Inl e \<Rightarrow> (Inl e, d1)
         | Inr pid \<Rightarrow>
             (let d2 = d1\<lparr>frontend_process := Some pid\<rparr>
              in case poll_ready E (frontend_url d2) 60 d2 of
                   (Inl e, d3) \<Rightarrow> (Inl e, d3)
                 | (Inr True, d3) \<Rightarrow> (Inr (True, ''Frontend started successfully''), d3)
                 | (Inr False, d3) \<Rightarrow> (Inr (False, ''Frontend failed to start within timeout''), d3)))"

definition start_frontend :: "env \<Rightarrow> demonstrator \<Rightarrow> (bool \<times> string) outcome" where
  "start_frontend E d =
     (case start_frontend_try E d of
        (Inl e, d1) \<Rightarrow> (Inr (False, ''Failed to start frontend: '' @ exn_str e), d1)
      | (Inr r, d1) \<Rightarrow> (Inr r, d1))"

section \<open>Endpoint verification and the report\<close>

text \<open>
  One entry of the list \<open>_verify_api_endpoints\<close> returns: the dictionary has the keys
  \<open>endpoint\<close>, \<open>method\<close>, \<open>status\<close> and either \<open>status_code\<close> or \<open>error\<close>.
\<close>

record api_result =
  endpoint :: string
  http_verb :: string
  status :: string
  status_code :: "string option"
  error :: "string option"

definition endpoints :: "(string \<times> string) list" where
  "endpoints =
     [(''/api/health'', ''GET''),
      (''/api/auth/register'', ''POST''),
      (''/api/auth/login'', ''POST''),
      (''/api/users/profile'', ''GET'')]"

fun verify_loop ::
  "env \<Rightarrow> (string \<times> string) list \<Rightarrow> api_result list \<Rightarrow> demonstrator \<Rightarrow> api_result list outcome" where
  "verify_loop E [] results d = (Inr results, d)"
| "verify_loop E ((ep, method) # rest) results d =
     (case (if method = ''GET'' then requests_call E GET (backend_url d @ ep) d
            else requests_call E POST (backend_url d @ ep) d) of
        (Inr code, d1) \<Rightarrow>
          verify_loop E rest
            (results @ [\<lparr> endpoint = ep, http_verb = method,
                          status = (if code < 500 then ''Success'' else ''Failed''),
                          status_code = Some (py_str code), error = None \<rparr>]) d1
      | (Inl e, d1) \<Rightarrow>
          if exn_class_of e = RequestException
          then verify_loop E rest
                 (results @ [\<lparr> endpoint = ep, http_verb = method, status = ''Failed'',
                               status_code = None, error = Some (exn_str e) \<rparr>]) d1
          else (Inl e, d1))"

definition verify_api_endpoints :: "env \<Rightarrow> demonstrator \<Rightarrow> api_result list outcome" where
  "verify_api_endpoints E d = verify_loop E endpoints [] d"

abbreviation (input) nl :: string where
  "nl \<equiv> [CHR 0x0A]"

definition report_row :: "api_result \<Rightarrow> string" where
  "report_row r =
     ''| '' @ endpoint r @ '' | '' @ http_verb r @ '' | '' @ status r @ '' | ''
       @ (case status_code r of Some c \<Rightarrow> c | None \<Rightarrow> ''N/A'') @ '' |''"

definition generate_demo_report :: "api_result list \<Rightarrow> demonstrator \<Rightarrow> string" where
  "generate_demo_report api_results d =
     join_lines
       ([''# Web Application Demonstration Report'' @ nl,
         ''## API Endpoint Status'' @ nl,
         ''| Endpoint | Method | Status | Status Code |'',
         ''|----------|---------|---------|-------------|'']
        @ map report_row api_results
        @ [nl @ ''## Application URLs'',
           ''- Frontend: '' @ frontend_url d,
           ''- Backend API: '' @ backend_url d,
           nl @ ''## Next Steps'',
           ''1. Open the frontend URL in your browser'',
           ''2. Try registering a new user'',
           ''3. Test the login functionality'',
           ''4. Explore the application features''])"

section \<open>Cleanup\<close>

text \<open>
  \<open>_cleanup\<close> (lines 161-175). \<open>terminate_each\<close> is the loop over
  \<open>psutil.Process(pid).children(recursive=True)\<close>, \<open>terminate_tree\<close> the block under
  each \<open>if self.<side>_process\<close>; one \<open>try\<close> surrounds both blocks.
\<close>

fun terminate_each :: "env \<Rightarrow> nat list \<Rightarrow> demonstrator \<Rightarrow> unit outcome" where
  "terminate_each E [] d = (Inr (), d)"
| "terminate_each E (child # rest) d =
     (case process_terminate E child d of
        (Some e, d1) \<Rightarrow> (Inl e, d1)
      | (None, d1) \<Rightarrow> terminate_each E rest d1)"

definition terminate_tree :: "env \<Rightarrow> nat \<Rightarrow> demonstrator \<Rightarrow> unit outcome" where
  "terminate_tree E pid d =
     (case psutil_children E pid d of
        (Inl e, d1) \<Rightarrow> (Inl e, d1)
      | (Inr children, d1) \<Rightarrow>
          (case terminate_each E children d1 of
             (Inl e, d2) \<Rightarrow> (Inl e, d2)
           | (Inr u, d2) \<Rightarrow>
               (case process_terminate E pid d2 of
                  (Some e, d3) \<Rightarrow> (Inl e, d3)
                | (None, d3) \<Rightarrow> (Inr (), d3))))"

definition cleanup_try :: "env \<Rightarrow> demonstrator \<Rightarrow> unit outcome" where
  "cleanup_try E d =
     (case (case backend_process d of
              None \<Rightarrow> (Inr (), d)
            | Some pid \<Rightarrow> terminate_tree E pid d) of
        (Inl e, d1) \<Rightarrow> (Inl e, d1)
      | (Inr u, d1) \<Rightarrow>
          (case frontend_process d1 of
             None \<Rightarrow> (Inr (), d1)
           | Some pid \<Rightarrow> terminate_tree E pid d1))"

definition cleanup :: "env \<Rightarrow> demonstrator \<Rightarrow> demonstrator" where
  "cleanup E d =
     (case cleanup_try E d of
        (Inl e, d1) \<Rightarrow> logger_error (''Error during cleanup: '' @ exn_str e) d1
      | (Inr u, d1) \<Rightarrow> d1)"


section \<open>Error fixes\<close>

text \<open>
  The fix ledger \<open>self._fix_attempts\<close>: created on first use with the three keys, then
  appended to by \<open>self._fix_attempts[key].append(x)\<close>.
\<close>

definition ensure_fix_attempts :: "demonstrator \<Rightarrow> demonstrator" where
  "ensure_fix_attempts d =
     (case fix_attempts d of
        None \<Rightarrow> d\<lparr>fix_attempts := Some [(''backend'', []), (''frontend'', []), (''dependencies'', [])]\<rparr>
      | Some fa \<Rightarrow> d)"

abbreviation (input) sq :: string where
  "sq \<equiv> [CHR 0x27]"

definition record_fix :: "string \<Rightarrow> string \<Rightarrow> demonstrator \<Rightarrow> unit outcome" where
  "record_fix key x d =
     (case fix_attempts d of
        None \<Rightarrow> (Inl (Exn OtherException (''AppDemonstrator object has no attribute _fix_attempts'')), d)
      | Some fa \<Rightarrow>
          if key \<in> fst ` set fa
          then (Inr (), d\<lparr>fix_attempts :=
                            Some (map (\<lambda>(k, v). if k = key then (k, v @ [x]) else (k, v)) fa)\<rparr>)
          else (Inl (Exn KeyError (sq @ key @ sq)), d))"

text \<open>
  The tail shared by the three fixers: \<open>if fix_applied: ledger.append; return True, fix_applied\<close>,
  otherwise \<open>return False, "Unable to automatically fix this <component> error"\<close>.
  \<open>fix_applied\<close> is \<open>None\<close> when no branch of the chain was taken.
\<close>

definition finish_fix ::
  "string \<Rightarrow> string \<Rightarrow> (string option) outcome \<Rightarrow> (bool \<times> string) outcome" where
  "finish_fix key unable r =
     (case r of
        (Inl e, d1) \<Rightarrow> (Inl e, d1)
      | (Inr None, d1) \<Rightarrow> (Inr (False, unable), d1)
      | (Inr (Some fix_applied), d1) \<Rightarrow>
          if fix_applied \<noteq> []
          then (case record_fix key fix_applied d1 of
                  (Inl e, d2) \<Rightarrow> (Inl e, d2)
                | (Inr u, d2) \<Rightarrow> (Inr (True, fix_applied), d2))
          else (Inr (False, unable), d1))"

text \<open>A subprocess call followed by setting \<open>fix_applied\<close>, unless the call raises.\<close>

definition run_then ::
  "env \<Rightarrow> string list \<Rightarrow> string option \<Rightarrow> string \<Rightarrow> demonstrator \<Rightarrow> (string option) outcome" where
  "run_then E cmd cwd fix_applied d =
     (case subprocess_run E cmd cwd d of
        (Some e, d1) \<Rightarrow> (Inl e, d1)
      | (None, d1) \<Rightarrow> (Inr (Some fix_applied), d1))"

fun run_each :: "env \<Rightarrow> string list list \<Rightarrow> string option \<Rightarrow> demonstrator \<Rightarrow> unit outcome" where
  "run_each E [] cwd d = (Inr (), d)"
| "run_each E (cmd # rest) cwd d =
     (case subprocess_run E cmd cwd d of
        (Some e, d1) \<Rightarrow> (Inl e, d1)
      | (None, d1) \<Rightarrow> run_each E rest cwd d1)"

text \<open>\<open>_fix_backend_error\<close> (lines 324-372): the body of its \<open>try\<close>, then the method.\<close>

definition fix_backend_try :: "env \<Rightarrow> string \<Rightarrow> demonstrator \<Rightarrow> (bool \<times> string) outcome" where
  "fix_backend_try E err d =
     (let backend_dir = path_join (project_dir d) ''backend''
      in finish_fix ''backend'' ''Unable to automatically fix this backend error''
           (if py_in ''ModuleNotFoundError'' err then
              (case split_on (CHR 0x27) err of
                 p0 # module_name # ps \<Rightarrow>
                   run_then E [executable E, ''-m'', ''pip'', ''install'', module_name]
                     (Some backend_dir) (''Installed missing module: '' @ module_name) d
               | _ \<Rightarrow> (Inl (Exn IndexError ''list index out of range''), d))
            else if py_in ''Address already in use'' err then
              (let d1 = d\<lparr>backend_port := backend_port d + 1\<rparr>;
                   d2 = d1\<lparr>backend_url := ''http://localhost:'' @ py_str (backend_port d1)\<rparr>
               in (Inr (Some (''Changed backend port to '' @ py_str (backend_port d2))), d2))
            else if py_in (''No module named '' @ sq @ ''flask'' @ sq) err then
              run_then E [executable E, ''-m'', ''pip'', ''install'', ''flask'']
                (Some backend_dir) ''Installed Flask'' d
            else if py_in ''SQLAlchemy'' err then
              (case run_each E
                      [[''pip'', ''install'', ''sqlalchemy''],
                       [''pip'', ''install'', ''psycopg2-binary''],
                       [''pip'', ''install'', ''flask-sqlalchemy'']]
                      (Some backend_dir) d of
                 (Inl e, d1) \<Rightarrow> (Inl e, d1)
               | (Inr u, d1) \<Rightarrow> (Inr (Some ''Installed database dependencies''), d1))
            else (Inr None, d)))"

definition fix_backend_error :: "env \<Rightarrow> string \<Rightarrow> demonstrator \<Rightarrow> (bool \<times> string) outcome" where
  "fix_backend_error E err d =
     (case fix_backend_try E err (ensure_fix_attempts d) of
        (Inl e, d1) \<Rightarrow> (Inr (False, ''Backend fix failed: '' @ exn_str e), d1)
      | (Inr r, d1) \<Rightarrow> (Inr r, d1))"

text \<open>
  \<open>_create_basic_package_json\<close> (lines 444-473): \<open>os.makedirs\<close>, \<open>open\<close> and
  \<open>json.dump\<close> are one answered call; the text written is \<open>json.dumps(package_json,
  indent=2)\<close>.
\<close>

definition dq :: "string \<Rightarrow> string" where
  "dq s = CHR 0x22 # s @ [CHR 0x22]"

definition basic_package_json :: string where
  "basic_package_json =
     join_lines
       [''{'',
        ''  '' @ dq ''name'' @ '': '' @ dq ''frontend'' @ '','',
        ''  '' @ dq ''version'' @ '': '' @ dq ''0.1.0'' @ '','',
        ''  '' @ dq ''private'' @ '': true,'',
        ''  '' @ dq ''dependencies'' @ '': {'',
        ''    '' @ dq ''react'' @ '': '' @ dq ''^17.0.2'' @ '','',
        ''    '' @ dq ''react-dom'' @ '': '' @ dq ''^17.0.2'' @ '','',
        ''    '' @ dq ''react-router-dom'' @ '': '' @ dq ''^6.0.0'' @ '','',
        ''    '' @ dq ''axios'' @ '': '' @ dq ''^0.24.0'',
        ''  },'',
        ''  '' @ dq ''scripts'' @ '': {'',
        ''    '' @ dq ''start'' @ '': '' @ dq ''react-scripts start'' @ '','',
        ''    '' @ dq ''build'' @ '': '' @ dq ''react-scripts build'' @ '','',
        ''    '' @ dq ''test'' @ '': '' @ dq ''react-scripts test'' @ '','',
        ''    '' @ dq ''eject'' @ '': '' @ dq ''react-scripts eject'',
        ''  },'',
        ''  '' @ dq ''eslintConfig'' @ '': {'',
        ''    '' @ dq ''extends'' @ '': ['',
        ''      '' @ dq ''react-app'',
        ''    ]'',
        ''  },'',
        ''  '' @ dq ''browserslist'' @ '': {'',
        ''    '' @ dq ''production'' @ '': ['',
        ''      '' @ dq ''>0.2%'' @ '','',
        ''      '' @ dq ''not dead'' @ '','',
        ''      '' @ dq ''not op_mini all'',
        ''    ],'',
        ''    '' @ dq ''development'' @ '': ['',
        ''      '' @ dq ''last 1 chrome version'' @ '','',
        ''      '' @ dq ''last 1 firefox version'' @ '','',
        ''      '' @ dq ''last 1 safari version'',
        ''    ]'',
        ''  }'',
        ''}'']"

definition create_basic_package_json :: "env \<Rightarrow> string \<Rightarrow> demonstrator \<Rightarrow> unit outcome" where
  "create_basic_package_json E frontend_dir d =
     (case write_file E (path_join frontend_dir ''package.json'') basic_package_json d of
        (Some e, d1) \<Rightarrow> (Inl e, d1)
      | (None, d1) \<Rightarrow> (Inr (), d1))"

text \<open>\<open>_fix_frontend_error\<close> (lines 374-410).\<close>

definition fix_frontend_try :: "env \<Rightarrow> string \<Rightarrow> demonstrator \<Rightarrow> (bool \<times> string) outcome" where
  "fix_frontend_try E err d =
     (let frontend_dir = path_join (project_dir d) ''frontend''
      in finish_fix ''frontend'' ''Unable to automatically fix this frontend error''
           (if py_in ''ENOENT'' err \<and> py_in ''package.json'' err then
              (case create_basic_package_json E frontend_dir d of
                 (Inl e, d1) \<Rightarrow> (Inl e, d1)
               | (Inr u, d1) \<Rightarrow> (Inr (Some ''Created basic package.json''), d1))
            else if py_in ''react-scripts'' err then
              run_then E [''npm'', ''install'', ''react-scripts'', ''--save-dev'']
                (Some frontend_dir) ''Installed react-scripts'' d
            else if py_in ''EADDRINUSE'' err then
              (let d1 = d\<lparr>frontend_port := frontend_port d + 1\<rparr>;
                   d2 = d1\<lparr>environ_port := Some (py_str (frontend_port d1))\<rparr>;
                   d3 = d2\<lparr>frontend_url := ''http://localhost:'' @ py_str (frontend_port d2)\<rparr>
               in (Inr (Some (''Changed frontend port to '' @ py_str (frontend_port d3))), d3))
            else (Inr None, d)))"

definition fix_frontend_error :: "env \<Rightarrow> string \<Rightarrow> demonstrator \<Rightarrow> (bool \<times> string) outcome" where
  "fix_frontend_error E err d =
     (case fix_frontend_try E err (ensure_fix_attempts d) of
        (Inl e, d1) \<Rightarrow> (Inr (False, ''Frontend fix failed: '' @ exn_str e), d1)
      | (Inr r, d1) \<Rightarrow> (Inr r, d1))"

text \<open>\<open>_fix_dependency_error\<close> (lines 412-442).\<close>

definition fix_dependency_try :: "env \<Rightarrow> string \<Rightarrow> demonstrator \<Rightarrow> (bool \<times> string) outcome" where
  "fix_dependency_try E err d =
     finish_fix ''dependencies'' ''Unable to automatically fix this dependency error''
       (if py_in ''npm'' (py_lower err) then
          (if platform E = ''win32''
           then run_then E [''npm'', ''install'', ''-g'', ''npm''] None ''Updated npm installation'' d
           else run_then E [''sudo'', ''npm'', ''install'', ''-g'', ''npm''] None
                  ''Updated npm installation'' d)
        else if py_in ''python'' (py_lower err) \<or> py_in ''pip'' (py_lower err) then
          run_then E [executable E, ''-m'', ''pip'', ''install'', ''--upgrade'', ''pip''] None
            ''Updated pip installation'' d
        else (Inr None, d))"

definition fix_dependency_error :: "env \<Rightarrow> string \<Rightarrow> demonstrator \<Rightarrow> (bool \<times> string) outcome" where
  "fix_dependency_error E err d =
     (case fix_dependency_try E err (ensure_fix_attempts d) of
        (Inl e, d1) \<Rightarrow> (Inr (False, ''Dependency fix failed: '' @ exn_str e), d1)
      | (Inr r, d1) \<Rightarrow> (Inr r, d1))"

text \<open>\<open>_analyze_and_fix_error\<close> (lines 177-189).\<close>

definition analyze_and_fix_error ::
  "env \<Rightarrow> string \<Rightarrow> string \<Rightarrow> demonstrator \<Rightarrow> (bool \<times> string) outcome" where
  "analyze_and_fix_error E err component d =
     (case (if component = ''backend'' then fix_backend_error E err d
            else if component = ''frontend'' then fix_frontend_error E err d
            else if component = ''dependencies'' then fix_dependency_error E err d
            else (Inr (False, ''Unknown component: '' @ component), d)) of
        (Inl e, d1) \<Rightarrow> (Inr (False, ''Error fixing failed: '' @ exn_str e), d1)
      | (Inr r, d1) \<Rightarrow> (Inr r, d1))"


section \<open>The retry loop\<close>

text \<open>
  \<open>_retry_with_fixes\<close> (lines 191-239). \<open>retry_loop\<close> is the \<open>while attempt <=
  max_attempts\<close> loop with its local variables \<open>attempt\<close>, \<open>last_error\<close> and
  \<open>errors_seen\<close> as arguments; its value is \<open>None\<close> when the loop never ends. The wrapped
  operation \<open>func\<close> is any callable on the object; the \<open>print\<close> calls are left out.
\<close>

partial_function (option) retry_loop ::
  "env \<Rightarrow> string \<Rightarrow> (demonstrator \<Rightarrow> (bool \<times> string) outcome) \<Rightarrow> int
     \<Rightarrow> int \<Rightarrow> string \<Rightarrow> string set \<Rightarrow> demonstrator \<Rightarrow> (bool \<times> string) outcome option" where
  "retry_loop E component func max_attempts attempt last_error errors_seen d =
     (if attempt \<le> max_attempts then
        (if last_error \<in> errors_seen
         then retry_loop E component func max_attempts (attempt + 1) last_error errors_seen d
         else
           (case analyze_and_fix_error E last_error component d of
              (Inl e, d1) \<Rightarrow> Some (Inl e, d1)
            | (Inr (fixed, fix_message), d1) \<Rightarrow>
                if fixed then
                  (case func d1 of
                     (Inl e, d2) \<Rightarrow> Some (Inl e, d2)
                   | (Inr (success, new_message), d2) \<Rightarrow>
                       if success then Some (Inr (True, new_message), d2)
                       else retry_loop E component func max_attempts attempt new_message
                              (insert last_error errors_seen) d2)
                else retry_loop E component func max_attempts (attempt + 1) last_error
                       (insert last_error errors_seen) d1))
      else Some (Inr (False,
                  ''Failed to fix '' @ component @ '' after '' @ py_str max_attempts
                    @ '' attempts. Last error: '' @ last_error), d))"

definition retry_with_fixes ::
  "env \<Rightarrow> string \<Rightarrow> string \<Rightarrow> string \<Rightarrow> (demonstrator \<Rightarrow> (bool \<times> string) outcome) \<Rightarrow> int
     \<Rightarrow> demonstrator \<Rightarrow> (bool \<times> string) outcome option" where
  "retry_with_fixes E operation error_msg component func max_attempts d =
     retry_loop E component func max_attempts 1 error_msg {} d"

section \<open>The demonstration\<close>

text \<open>
  \<open>demonstrate\<close> (lines 241-322). \<open>run_stage\<close> is the block repeated for each of the
  first three stages: call the operation and, when it reports failure, hand it to
  \<open>_retry_with_fixes\<close> with the default \<open>max_attempts = 5\<close>.
\<close>

definition run_stage ::
  "env \<Rightarrow> string \<Rightarrow> string \<Rightarrow> (demonstrator \<Rightarrow> (bool \<times> string) outcome) \<Rightarrow> demonstrator
     \<Rightarrow> (bool \<times> string) outcome option" where
  "run_stage E operation component func d =
     (case func d of
        (Inl e, d1) \<Rightarrow> Some (Inl e, d1)
      | (Inr (success, message), d1) \<Rightarrow>
          if \<not> success then retry_with_fixes E operation message component func 5 d1
          else Some (Inr (success, message), d1))"

definition fix_summary :: "demonstrator \<Rightarrow> string" where
  "fix_summary d =
     nl @ nl @ ''## Fix Attempts Summary'' @ nl @
     (case fix_attempts d of
        Some fa \<Rightarrow>
          concat (map (\<lambda>(component, attempts).
                         nl @ ''### '' @ py_title component @ '' Fixes'' @ nl
                           @ concat (map (\<lambda>attempt. ''- '' @ attempt @ nl) attempts)) fa)
      | None \<Rightarrow> ''No fixes were needed during demonstration.'' @ nl)"

definition verify_and_report ::
  "env \<Rightarrow> demonstrator \<Rightarrow> (bool \<times> string \<times> string option) outcome" where
  "verify_and_report E d =
     (case verify_api_endpoints E d of
        (Inl e, d1) \<Rightarrow> (Inl e, d1)
      | (Inr api_results, d1) \<Rightarrow>
          (let report = generate_demo_report api_results d1;
               report_path = path_join (project_dir d1) ''demo_report.md''
           in case write_file E report_path (report @ fix_summary d1) d1 of
                (Some e, d2) \<Rightarrow> (Inl e, d2)
              | (None, d2) \<Rightarrow>
                  (case webbrowser_open E (frontend_url d2) d2 of
                     (Some e, d3) \<Rightarrow> (Inl e, d3)
                   | (None, d3) \<Rightarrow>
                       (Inr (True, ''Demonstration completed successfully'', Some report), d3))))"

definition demonstrate_try ::
  "env \<Rightarrow> demonstrator \<Rightarrow> (bool \<times> string \<times> string option) outcome option" where
  "demonstrate_try E d =
     (case run_stage E ''Dependency installation'' ''dependencies'' (install_dependencies E) d of
        None \<Rightarrow> None
      | Some (Inl e, d1) \<Rightarrow> Some (Inl e, d1)
      | Some (Inr (success1, message1), d1) \<Rightarrow>
          if \<not> success1 then Some (Inr (False, message1, None), d1)
          else
            (case run_stage E ''Backend startup'' ''backend'' (start_backend E) d1 of
               None \<Rightarrow> None
             | Some (Inl e, d2) \<Rightarrow> Some (Inl e, d2)
             | Some (Inr (success2, message2), d2) \<Rightarrow>
                 if \<not> success2 then Some (Inr (False, message2, None), d2)
                 else
                   (case run_stage E ''Frontend startup'' ''frontend'' (start_frontend E) d2 of
                      None \<Rightarrow> None
                    | Some (Inl e, d3) \<Rightarrow> Some (Inl e, d3)
                    | Some (Inr (success3, message3), d3) \<Rightarrow>
                        if \<not> success3 then Some (Inr (False, message3, None), d3)
                        else Some (verify_and_report E d3))))"

text \<open>
  The \<open>except Exception\<close> clause turns an exception into a failure tuple; the
  \<open>finally\<close> clause runs \<open>_cleanup\<close> after whichever \<open>return\<close> was taken.
\<close>

definition demonstrate ::
  "env \<Rightarrow> demonstrator \<Rightarrow> ((bool \<times> string \<times> string option) \<times> demonstrator) option" where
  "demonstrate E d =
     (case demonstrate_try E d of
        None \<Rightarrow> None
      | Some (Inl e, d1) \<Rightarrow> Some ((False, ''Demonstration failed: '' @ exn_str e, None), cleanup E d1)
      | Some (Inr r, d1) \<Rightarrow> Some (r, cleanup E d1))"


section \<open>Observations and sample environments\<close>

text \<open>
  What the outside world answers to the four requests of \<open>_verify_api_endpoints\<close>
  when the sweep starts in state \<open>d\<close>, in request order.
\<close>

definition endpoint_replies :: "env \<Rightarrow> demonstrator \<Rightarrow> (exn + int) list" where
  "endpoint_replies E d =
     [http_at E (tick d) GET (backend_url d @ ''/api/health''),
      http_at E (tick d + 1) POST (backend_url d @ ''/api/auth/register''),
      http_at E (tick d + 2) POST (backend_url d @ ''/api/auth/login''),
      http_at E (tick d + 3) GET (backend_url d @ ''/api/users/profile'')]"

text \<open>
  \<open>calm\<close> is a machine on which nothing goes wrong: no manifest files, every command
  succeeds, the backend gets process id 100 and the frontend 200, every request is
  answered with status 200, no process has children. The other environments differ
  from it in one respect each.
\<close>

definition calm :: env where
  "calm =
     \<lparr> executable = ''python3'',
       platform = ''linux'',
       exists_at = (\<lambda>t p. False),
       run_at = (\<lambda>t cmd cwd. None),
       popen_at = (\<lambda>t cmd cwd. Inr (if cmd = [''npm'', ''start''] then 200 else 100)),
       http_at = (\<lambda>t m url. Inr 200),
       children_at = (\<lambda>t pid. Inr []),
       terminate_at = (\<lambda>t pid. None),
       write_at = (\<lambda>t path content. None),
       browser_at = (\<lambda>t url. None) \<rparr>"

definition mixed_replies :: env where
  "mixed_replies =
     calm\<lparr>http_at := (\<lambda>t m url.
              if t = 0 then Inr 200
              else if t = 1 then Inr 404
              else if t = 2 then Inl (Exn RequestException ''Connection aborted'')
              else Inr 500)\<rparr>"

text \<open>
  Observations on a run of the readiness loops: the number of HTTP requests in a trace,
  whether a reply leaves the loop waiting (any status but 200, or a
  \<open>RequestException\<close>), whether the \<open>Popen\<close> call of a start method succeeds in
  state \<open>d\<close>, and the reply to its \<open>i\<close>-th probe (the \<open>Popen\<close> call is answered first).
\<close>

fun is_http :: "event \<Rightarrow> bool" where
  "is_http (Http m url t r) = True"
| "is_http e = False"

definition http_count :: "event list \<Rightarrow> nat" where
  "http_count evs = length (filter is_http evs)"

definition not_ready :: "exn + int \<Rightarrow> bool" where
  "not_ready r = (case r of Inr code \<Rightarrow> code \<noteq> 200 | Inl e \<Rightarrow> exn_class_of e = RequestException)"

definition backend_launches :: "env \<Rightarrow> demonstrator \<Rightarrow> bool" where
  "backend_launches E d =
     (case popen_at E (tick d) [executable E, ''-m'', ''flask'', ''run'']
             (path_join (project_dir d) ''backend'') of
        Inr pid \<Rightarrow> True | Inl e \<Rightarrow> False)"

definition frontend_launches :: "env \<Rightarrow> demonstrator \<Rightarrow> bool" where
  "frontend_launches E d =
     (case popen_at E (tick d) [''npm'', ''start''] (path_join (project_dir d) ''frontend'') of
        Inr pid \<Rightarrow> True | Inl e \<Rightarrow> False)"

definition backend_probe_reply :: "env \<Rightarrow> demonstrator \<Rightarrow> nat \<Rightarrow> exn + int" where
  "backend_probe_reply E d i = http_at E (tick d + 1 + i) GET (backend_url d @ ''/health'')"

definition frontend_probe_reply :: "env \<Rightarrow> demonstrator \<Rightarrow> nat \<Rightarrow> exn + int" where
  "frontend_probe_reply E d i = http_at E (tick d + 1 + i) GET (frontend_url d)"

definition slow_backend :: env where
  "slow_backend =
     calm\<lparr>http_at := (\<lambda>t m url.
              if t < 3 then Inl (Exn RequestException ''Connection refused'') else Inr 200)\<rparr>"

definition never_up :: env where
  "never_up = calm\<lparr>http_at := (\<lambda>t m url. Inl (Exn RequestException ''Connection refused''))\<rparr>"

definition installer_broken :: env where
  "installer_broken =
     calm\<lparr>run_at := (\<lambda>t cmd cwd.
              Some (Exn CalledProcessError ''Command returned non-zero exit status 1.''))\<rparr>"

definition missing_redis :: string where
  "missing_redis = ''ModuleNotFoundError: No module named '' @ sq @ ''redis'' @ sq"

definition port_and_module :: string where
  "port_and_module =
     ''OSError: [Errno 98] Address already in use; '' @ missing_redis"

text \<open>
  Two wrapped operations for the retry loop. \<open>port_busy\<close> fails with the same
  message on every call. \<open>port_always_taken\<close> fails on every call and names the URL it
  tried, so that after each port change the message is one not seen before.
  \<open>port_taken_inv\<close> describes the states the loop passes through when it retries
  \<open>port_always_taken\<close>: the current error names the current port, and every error seen
  so far names a smaller one.
\<close>

definition port_busy :: "demonstrator \<Rightarrow> (bool \<times> string) outcome" where
  "port_busy d = (Inr (False, ''Address already in use''), d)"

definition port_always_taken :: "demonstrator \<Rightarrow> (bool \<times> string) outcome" where
  "port_always_taken d = (Inr (False, ''Address already in use: '' @ backend_url d), d)"

definition port_taken_inv :: "string \<Rightarrow> string set \<Rightarrow> demonstrator \<Rightarrow> bool" where
  "port_taken_inv l s d =
     (0 \<le> backend_port d
      \<and> backend_url d = ''http://localhost:'' @ py_str (backend_port d)
      \<and> l = ''Address already in use: '' @ backend_url d
      \<and> (\<forall>e\<in>s. \<exists>p. 0 \<le> p \<and> p < backend_port d
                   \<and> e = ''Address already in use: http://localhost:'' @ py_str p)
      \<and> (case fix_attempts d of None \<Rightarrow> True | Some fa \<Rightarrow> ''backend'' \<in> fst ` set fa))"

text \<open>
  Two readings of a trace of the readiness loop. The first pair is what is asked of the
  loop: \<open>sleep_between_probes\<close> holds when a \<open>Sleep 1\<close> lies between every two
  consecutive requests, \<open>requests_have_timeout\<close> when every request was issued with a
  \<open>timeout=\<close> argument. The second pair is what the loop does: \<open>sleeps_after_refusals\<close>
  holds when every request that raised a \<open>RequestException\<close> is directly followed by
  \<open>Sleep 1\<close>; a probe event is a GET issued without a timeout, or \<open>Sleep 1\<close>.
\<close>

fun paced_from :: "bool \<Rightarrow> event list \<Rightarrow> bool" where
  "paced_from rested [] = True"
| "paced_from rested (Http m url t r # es) = (rested \<and> paced_from False es)"
| "paced_from rested (Sleep n # es) = paced_from (rested \<or> n = 1) es"
| "paced_from rested (e # es) = paced_from rested es"

definition sleep_between_probes :: "event list \<Rightarrow> bool" where
  "sleep_between_probes evs = paced_from True evs"

fun has_timeout :: "event \<Rightarrow> bool" where
  "has_timeout (Http m url t r) = (t \<noteq> None)"
| "has_timeout e = True"

definition requests_have_timeout :: "event list \<Rightarrow> bool" where
  "requests_have_timeout evs = list_all has_timeout evs"

fun sleeps_after_refusals :: "event list \<Rightarrow> bool" where
  "sleeps_after_refusals [] = True"
| "sleeps_after_refusals (Http m url t (Inl e) # es) =
     (if exn_class_of e = RequestException
      then (case es of Sleep n # es' \<Rightarrow> n = 1 \<and> sleeps_after_refusals es' | _ \<Rightarrow> False)
      else sleeps_after_refusals es)"
| "sleeps_after_refusals (e # es) = sleeps_after_refusals es"

fun is_probe_event :: "event \<Rightarrow> bool" where
  "is_probe_event (Http m url t r) = (m = GET \<and> t = None)"
| "is_probe_event (Sleep n) = (n = 1)"
| "is_probe_event e = False"

definition busy_backend :: env where
  "busy_backend = calm\<lparr>http_at := (\<lambda>t m url. Inr 503)\<rparr>"

text \<open>The message Node prints when the development server cannot bind its port.\<close>

definition node_port_error :: string where
  "node_port_error = ''Error: listen EADDRINUSE: address already in use :::3000''"

text \<open>
  Readings of a trace for the cleanup: the events \<open>_cleanup\<close> can add; the process
  ids that \<open>Popen\<close> returned; and what is asked of a run, that a \<open>terminate\<close> call
  was made for every one of them. On \<open>child_gone\<close> no server ever answers, the
  backend process 100 has one child, 101, and terminating 101 raises (it has exited in
  the meantime).
\<close>

fun is_cleanup_event :: "event \<Rightarrow> bool" where
  "is_cleanup_event (ChildrenOf pid r) = True"
| "is_cleanup_event (Terminate pid) = True"
| "is_cleanup_event (LogError m) = True"
| "is_cleanup_event e = False"

fun launched :: "event list \<Rightarrow> nat list" where
  "launched [] = []"
| "launched (Popen cmd cwd vars (Inr pid) # es) = pid # launched es"
| "launched (e # es) = launched es"



text \<open>
  An environment in which the first backend start fails outside the probe's own
  \<open>except\<close> clause with the port in use, so that the port fix applies and the start
  is run a second time; each \<open>Popen\<close> call returns a new pid.
\<close>

definition relaunch :: env where
  "relaunch =
     calm\<lparr>popen_at := (\<lambda>t cmd cwd. Inr (100 + t)),
          http_at := (\<lambda>t m url.
            if t = 3 then Inl (Exn OtherException ''[Errno 98] Address already in use'')
            else Inl (Exn RequestException ''Connection refused''))\<rparr>"

section \<open>Properties\<close>

subsection \<open>Endpoint verification\<close>

lemma all_less_4: "(\<forall>i<4. P (i::nat)) = (P 0 \<and> P 1 \<and> P 2 \<and> P 3)"
  by (simp add: numeral_eq_Suc All_less_Suc conj_ac)

lemma py_str_samples:
  "py_str 200 = ''200''" "py_str 404 = ''404''" "py_str 500 = ''500''"
  "py_str 3000 = ''3000''" "py_str 3001 = ''3001''" "py_str 5000 = ''5000''" "py_str 5 = ''5''"
  by (simp_all add: py_str_def str_nat.simps digit_char_def)

text \<open>
  C10. When the only exceptions the four requests raise are \<open>requests.RequestException\<close>s,
  the sweep issues exactly the four requests, one per endpoint and in the fixed order,
  whatever the earlier ones answered, and returns one entry per endpoint. An entry's
  status is \<open>Success\<close> exactly when the request was answered with a status code below
  500 (so 400 and 404 count as success, recorded with their code), and \<open>Failed\<close> exactly
  when the code is 500 or more or the request raised.
\<close>

theorem verify_api_endpoints_outcomes:
  assumes ok: "\<forall>e. Inl e \<in> set (endpoint_replies E d) \<longrightarrow> exn_class_of e = RequestException"
  shows "\<exists>rs d'. verify_api_endpoints E d = (Inr rs, d')
     \<and> map endpoint rs = map fst endpoints \<and> map http_verb rs = map snd endpoints
     \<and> events d' = events d @
          [Http GET (backend_url d @ ''/api/health'') None (endpoint_replies E d ! 0),
           Http POST (backend_url d @ ''/api/auth/register'') None (endpoint_replies E d ! 1),
           Http POST (backend_url d @ ''/api/auth/login'') None (endpoint_replies E d ! 2),
           Http GET (backend_url d @ ''/api/users/profile'') None (endpoint_replies E d ! 3)]
     \<and> (\<forall>i<4. (status (rs ! i) = ''Success'') = (\<exists>c. endpoint_replies E d ! i = Inr c \<and> c < 500)
            \<and> (status (rs ! i) = ''Failed'')
                 = ((\<exists>c. endpoint_replies E d ! i = Inr c \<and> 500 \<le> c)
                    \<or> (\<exists>e. endpoint_replies E d ! i = Inl e))
            \<and> (\<forall>c. endpoint_replies E d ! i = Inr c \<longrightarrow> status_code (rs ! i) = Some (py_str c))
            \<and> (\<forall>e. endpoint_replies E d ! i = Inl e
                   \<longrightarrow> status_code (rs ! i) = None \<and> error (rs ! i) = Some (exn_str e)))"
proof -
  let ?r0 = "http_at E (tick d) GET (backend_url d @ ''/api/health'')"
  let ?r1 = "http_at E (Suc (tick d)) POST (backend_url d @ ''/api/auth/register'')"
  let ?r2 = "http_at E (Suc (Suc (tick d))) POST (backend_url d @ ''/api/auth/login'')"
  let ?r3 = "http_at E (Suc (Suc (Suc (tick d)))) GET (backend_url d @ ''/api/users/profile'')"
  have c0: "\<And>e. ?r0 = Inl e \<Longrightarrow> exn_class_of e = RequestException"
    and c1: "\<And>e. ?r1 = Inl e \<Longrightarrow> exn_class_of e = RequestException"
    and c2: "\<And>e. ?r2 = Inl e \<Longrightarrow> exn_class_of e = RequestException"
    and c3: "\<And>e. ?r3 = Inl e \<Longrightarrow> exn_class_of e = RequestException"
    using ok by (auto simp: endpoint_replies_def numeral_3_eq_3)
  show ?thesis
    unfolding verify_api_endpoints_def endpoints_def all_less_4
    by (cases ?r0; cases ?r1; cases ?r2; cases ?r3)
       (simp_all add: requests_call_def Let_def endpoint_replies_def numeral_3_eq_3 c0 c1 c2 c3)
qed

theorem verify_api_endpoints_outcomes_witness:
  "map status (projr (fst (verify_api_endpoints mixed_replies (init ''demo'' None))))
     = [''Success'', ''Success'', ''Failed'', ''Failed'']
   \<and> map status_code (projr (fst (verify_api_endpoints mixed_replies (init ''demo'' None))))
     = [Some ''200'', Some ''404'', None, Some ''500'']"
proof -
  let ?d = "init ''demo'' None"
  have replies: "endpoint_replies mixed_replies ?d
      = [Inr 200, Inr 404, Inl (Exn RequestException ''Connection aborted''), Inr 500]"
    by (simp add: endpoint_replies_def mixed_replies_def calm_def init_def)
  have h: "\<forall>e. Inl e \<in> set (endpoint_replies mixed_replies ?d) \<longrightarrow> exn_class_of e = RequestException"
    by (auto simp: replies)
  from verify_api_endpoints_outcomes [OF h] obtain rs d' where
    run: "verify_api_endpoints mixed_replies ?d = (Inr rs, d')"
    and eps: "map endpoint rs = map fst endpoints"
    and st: "\<forall>i<4. (status (rs ! i) = ''Success'')
                     = (\<exists>c. endpoint_replies mixed_replies ?d ! i = Inr c \<and> c < 500)
            \<and> (status (rs ! i) = ''Failed'')
                 = ((\<exists>c. endpoint_replies mixed_replies ?d ! i = Inr c \<and> 500 \<le> c)
                    \<or> (\<exists>e. endpoint_replies mixed_replies ?d ! i = Inl e))
            \<and> (\<forall>c. endpoint_replies mixed_replies ?d ! i = Inr c
                   \<longrightarrow> status_code (rs ! i) = Some (py_str c))
            \<and> (\<forall>e. endpoint_replies mixed_replies ?d ! i = Inl e
                   \<longrightarrow> status_code (rs ! i) = None \<and> error (rs ! i) = Some (exn_str e))"
    by blast
  from eps have "length rs = 4"
    using length_map [of endpoint rs] by (simp add: endpoints_def)
  then obtain a b c e where rs: "rs = [a, b, c, e]"
    by (auto simp: numeral_eq_Suc length_Suc_conv)
  from st show ?thesis
    unfolding all_less_4 replies run rs by (simp add: py_str_samples)
qed

subsection \<open>The readiness loops\<close>

lemma http_count_simps [simp]:
  "http_count [] = 0"
  "http_count (e # es) = (if is_http e then 1 else 0) + http_count es"
  "http_count (xs @ ys) = http_count xs + http_count ys"
  by (simp_all add: http_count_def)

lemma poll_ready_ready:
  "http_at E (tick d) GET url = Inr 200 \<Longrightarrow>
     \<exists>d'. poll_ready E url (Suc n) d = (Inr True, d')
          \<and> http_count (events d') = Suc (http_count (events d))"
  by (simp add: requests_call_def Let_def)

lemma poll_ready_not_ready:
  assumes "not_ready (http_at E (tick d) GET url)"
  shows "\<exists>d1. poll_ready E url (Suc n) d = poll_ready E url n d1
            \<and> tick d1 = Suc (tick d)
            \<and> http_count (events d1) = Suc (http_count (events d))"
proof (cases "http_at E (tick d) GET url")
  case (Inl e)
  with assms have "exn_class_of e = RequestException" by (simp add: not_ready_def)
  with Inl show ?thesis
    by (intro exI [of _ "time_sleep 1 (snd (requests_call E GET url d))"])
       (simp add: requests_call_def Let_def time_sleep_def)
next
  case (Inr code)
  with assms have "code \<noteq> 200" by (simp add: not_ready_def)
  with Inr show ?thesis
    by (intro exI [of _ "snd (requests_call E GET url d)"])
       (simp add: requests_call_def Let_def)
qed

lemma poll_ready_first_200:
  assumes "k < n"
    and "\<forall>i<k. not_ready (http_at E (tick d + i) GET url)"
    and "http_at E (tick d + k) GET url = Inr 200"
  shows "\<exists>d'. poll_ready E url n d = (Inr True, d')
            \<and> http_count (events d') = http_count (events d) + (k + 1)"
  using assms
proof (induction n arbitrary: k d)
  case 0
  then show ?case by simp
next
  case (Suc n)
  show ?case
  proof (cases k)
    case 0
    with Suc.prems poll_ready_ready [of E d url n] show ?thesis by simp
  next
    case (Suc j)
    from Suc.prems(2) Suc have "not_ready (http_at E (tick d) GET url)" by auto
    from poll_ready_not_ready [OF this, of n] obtain d1 where
      step: "poll_ready E url (Suc n) d = poll_ready E url n d1"
      and t1: "tick d1 = Suc (tick d)"
      and h1: "http_count (events d1) = Suc (http_count (events d))" by blast
    have "j < n" using Suc.prems(1) Suc by simp
    moreover have "\<forall>i<j. not_ready (http_at E (tick d1 + i) GET url)"
    proof (intro allI impI)
      fix i assume "i < j"
      then have "Suc i < k" using Suc by simp
      with Suc.prems(2) have "not_ready (http_at E (tick d + Suc i) GET url)" by blast
      then show "not_ready (http_at E (tick d1 + i) GET url)" by (simp add: t1)
    qed
    moreover have "http_at E (tick d1 + j) GET url = Inr 200"
      using Suc.prems(3) Suc by (simp add: t1)
    ultimately obtain d' where "poll_ready E url n d1 = (Inr True, d')"
      and "http_count (events d') = http_count (events d1) + (j + 1)"
      using Suc.IH [of j d1] by blast
    with step h1 Suc show ?thesis by simp
  qed
qed

lemma poll_ready_never:
  assumes "\<forall>i<n. not_ready (http_at E (tick d + i) GET url)"
  shows "\<exists>d'. poll_ready E url n d = (Inr False, d')
            \<and> http_count (events d') = http_count (events d) + n"
  using assms
proof (induction n arbitrary: d)
  case 0
  then show ?case by simp
next
  case (Suc n)
  from Suc.prems have "not_ready (http_at E (tick d) GET url)" by auto
  from poll_ready_not_ready [OF this, of n] obtain d1 where
    step: "poll_ready E url (Suc n) d = poll_ready E url n d1"
    and t1: "tick d1 = Suc (tick d)"
    and h1: "http_count (events d1) = Suc (http_count (events d))" by blast
  have "\<forall>i<n. not_ready (http_at E (tick d1 + i) GET url)"
  proof (intro allI impI)
    fix i assume "i < n"
    then have "Suc i < Suc n" by simp
    with Suc.prems have "not_ready (http_at E (tick d + Suc i) GET url)" by blast
    then show "not_ready (http_at E (tick d1 + i) GET url)" by (simp add: t1)
  qed
  from Suc.IH [OF this] obtain d' where "poll_ready E url n d1 = (Inr False, d')"
    and "http_count (events d') = http_count (events d1) + n" by blast
  with step h1 show ?case by simp
qed

lemma poll_ready_false_count:
  "poll_ready E url n d = (Inr False, d') \<Longrightarrow> http_count (events d') = http_count (events d) + n"
proof (induction n arbitrary: d)
  case 0
  then show ?case by simp
next
  case (Suc n)
  then show ?case
    by (auto simp: requests_call_def Let_def time_sleep_def split: sum.splits if_splits)
qed

lemma start_backend_ready:
  assumes "backend_launches E d" and "k < 30"
    and "\<forall>i<k. not_ready (backend_probe_reply E d i)"
    and "backend_probe_reply E d k = Inr 200"
  shows "\<exists>d'. start_backend E d = (Inr (True, ''Backend started successfully''), d')
            \<and> http_count (events d') = http_count (events d) + (k + 1)"
proof -
  let ?dir = "path_join (project_dir d) ''backend''"
  let ?cmd = "[executable E, ''-m'', ''flask'', ''run'']"
  from assms(1) obtain pid where pid: "popen_at E (tick d) ?cmd ?dir = Inr pid"
    by (auto simp: backend_launches_def split: sum.splits)
  let ?d2 = "(snd (subprocess_Popen E ?cmd ?dir
                [(''FLASK_APP'', ''app''), (''FLASK_ENV'', ''development'')] d))\<lparr>backend_process := Some pid\<rparr>"
  have t: "tick ?d2 = tick d + 1" and u: "backend_url ?d2 = backend_url d"
    and h: "http_count (events ?d2) = http_count (events d)"
    by (simp_all add: subprocess_Popen_def Let_def)
  have "\<forall>i<k. not_ready (http_at E (tick ?d2 + i) GET (backend_url ?d2 @ ''/health''))"
    using assms(3) unfolding t u by (simp add: backend_probe_reply_def)
  moreover have "http_at E (tick ?d2 + k) GET (backend_url ?d2 @ ''/health'') = Inr 200"
    using assms(4) unfolding t u by (simp add: backend_probe_reply_def)
  ultimately obtain d' where
    "poll_ready E (backend_url ?d2 @ ''/health'') 30 ?d2 = (Inr True, d')"
    "http_count (events d') = http_count (events ?d2) + (k + 1)"
    using poll_ready_first_200 [OF assms(2), of E ?d2 "backend_url ?d2 @ ''/health''"] by blast
  then show ?thesis
    using pid h by (simp add: start_backend_def start_backend_try_def subprocess_Popen_def Let_def)
qed

lemma start_backend_timeout:
  assumes "backend_launches E d"
    and "\<forall>i<30. not_ready (backend_probe_reply E d i)"
  shows "\<exists>d'. start_backend E d = (Inr (False, ''Backend failed to start within timeout''), d')
            \<and> http_count (events d') = http_count (events d) + 30"
proof -
  let ?dir = "path_join (project_dir d) ''backend''"
  let ?cmd = "[executable E, ''-m'', ''flask'', ''run'']"
  from assms(1) obtain pid where pid: "popen_at E (tick d) ?cmd ?dir = Inr pid"
    by (auto simp: backend_launches_def split: sum.splits)
  let ?d2 = "(snd (subprocess_Popen E ?cmd ?dir
                [(''FLASK_APP'', ''app''), (''FLASK_ENV'', ''development'')] d))\<lparr>backend_process := Some pid\<rparr>"
  have t: "tick ?d2 = tick d + 1" and u: "backend_url ?d2 = backend_url d"
    and h: "http_count (events ?d2) = http_count (events d)"
    by (simp_all add: subprocess_Popen_def Let_def)
  have "\<forall>i<30. not_ready (http_at E (tick ?d2 + i) GET (backend_url ?d2 @ ''/health''))"
    using assms(2) unfolding t u by (simp add: backend_probe_reply_def)
  then obtain d' where
    "poll_ready E (backend_url ?d2 @ ''/health'') 30 ?d2 = (Inr False, d')"
    "http_count (events d') = http_count (events ?d2) + 30"
    using poll_ready_never [of 30 E ?d2 "backend_url ?d2 @ ''/health''"] by blast
  then show ?thesis
    using pid h by (simp add: start_backend_def start_backend_try_def subprocess_Popen_def Let_def)
qed

lemma start_backend_timeout_only_after_cap:
  assumes "start_backend E d = (Inr (False, ''Backend failed to start within timeout''), d')"
  shows "http_count (events d') = http_count (events d) + 30"
  using assms
  by (auto simp: start_backend_def start_backend_try_def subprocess_Popen_def Let_def
           split: sum.splits prod.splits bool.splits dest!: poll_ready_false_count)

lemma start_frontend_ready:
  assumes "frontend_launches E d" and "k < 60"
    and "\<forall>i<k. not_ready (frontend_probe_reply E d i)"
    and "frontend_probe_reply E d k = Inr 200"
  shows "\<exists>d'. start_frontend E d = (Inr (True, ''Frontend started successfully''), d')
            \<and> http_count (events d') = http_count (events d) + (k + 1)"
proof -
  let ?dir = "path_join (project_dir d) ''frontend''"
  let ?cmd = "[''npm'', ''start'']"
  from assms(1) obtain pid where pid: "popen_at E (tick d) ?cmd ?dir = Inr pid"
    by (auto simp: frontend_launches_def split: sum.splits)
  let ?d2 = "(snd (subprocess_Popen E ?cmd ?dir
                [(''PORT'', case environ_port d of Some v \<Rightarrow> v | None \<Rightarrow> py_str (frontend_port d))] d))\<lparr>frontend_process := Some pid\<rparr>"
  have t: "tick ?d2 = tick d + 1" and u: "frontend_url ?d2 = frontend_url d"
    and h: "http_count (events ?d2) = http_count (events d)"
    by (simp_all add: subprocess_Popen_def Let_def)
  have "\<forall>i<k. not_ready (http_at E (tick ?d2 + i) GET (frontend_url ?d2))"
    using assms(3) unfolding t u by (simp add: frontend_probe_reply_def)
  moreover have "http_at E (tick ?d2 + k) GET (frontend_url ?d2) = Inr 200"
    using assms(4) unfolding t u by (simp add: frontend_probe_reply_def)
  ultimately obtain d' where
    "poll_ready E (frontend_url ?d2) 60 ?d2 = (Inr True, d')"
    "http_count (events d') = http_count (events ?d2) + (k + 1)"
    using poll_ready_first_200 [OF assms(2), of E ?d2 "frontend_url ?d2"] by blast
  then show ?thesis
    using pid h by (simp add: start_frontend_def start_frontend_try_def subprocess_Popen_def Let_def)
qed

lemma start_frontend_timeout:
  assumes "frontend_launches E d"
    and "\<forall>i<60. not_ready (frontend_probe_reply E d i)"
  shows "\<exists>d'. start_frontend E d = (Inr (False, ''Frontend failed to start within timeout''), d')
            \<and> http_count (events d') = http_count (events d) + 60"
proof -
  let ?dir = "path_join (project_dir d) ''frontend''"
  let ?cmd = "[''npm'', ''start'']"
  from assms(1) obtain pid where pid: "popen_at E (tick d) ?cmd ?dir = Inr pid"
    by (auto simp: frontend_launches_def split: sum.splits)
  let ?d2 = "(snd (subprocess_Popen E ?cmd ?dir
                [(''PORT'', case environ_port d of Some v \<Rightarrow> v | None \<Rightarrow> py_str (frontend_port d))] d))\<lparr>frontend_process := Some pid\<rparr>"
  have t: "tick ?d2 = tick d + 1" and u: "frontend_url ?d2 = frontend_url d"
    and h: "http_count (events ?d2) = http_count (events d)"
    by (simp_all add: subprocess_Popen_def Let_def)
  have "\<forall>i<60. not_ready (http_at E (tick ?d2 + i) GET (frontend_url ?d2))"
    using assms(2) unfolding t u by (simp add: frontend_probe_reply_def)
  then obtain d' where
    "poll_ready E (frontend_url ?d2) 60 ?d2 = (Inr False, d')"
    "http_count (events d') = http_count (events ?d2) + 60"
    using poll_ready_never [of 60 E ?d2 "frontend_url ?d2"] by blast
  then show ?thesis
    using pid h by (simp add: start_frontend_def start_frontend_try_def subprocess_Popen_def Let_def)
qed

lemma start_frontend_timeout_only_after_cap:
  assumes "start_frontend E d = (Inr (False, ''Frontend failed to start within timeout''), d')"
  shows "http_count (events d') = http_count (events d) + 60"
  using assms
  by (auto simp: start_frontend_def start_frontend_try_def subprocess_Popen_def Let_def
           split: sum.splits prod.splits bool.splits dest!: poll_ready_false_count)

text \<open>
  C6. Once the server process is launched, the readiness loop of \<open>_start_backend\<close>
  returns success at the first probe answered with status 200, having made exactly the
  probes up to and including that one; when none of the 30 probes is answered with 200
  (each gets another status or a \<open>RequestException\<close>) it returns the timeout failure
  after exactly 30 probes, and the timeout failure is never returned after fewer. The
  same holds for \<open>_start_frontend\<close> with 60 probes.
\<close>

theorem readiness_loop_first_200_or_cap:
  "(backend_launches E d \<and> k < 30 \<and> (\<forall>i<k. not_ready (backend_probe_reply E d i))
      \<and> backend_probe_reply E d k = Inr 200
      \<longrightarrow> (\<exists>d'. start_backend E d = (Inr (True, ''Backend started successfully''), d')
                \<and> http_count (events d') = http_count (events d) + (k + 1)))
   \<and> (backend_launches E d \<and> (\<forall>i<30. not_ready (backend_probe_reply E d i))
      \<longrightarrow> (\<exists>d'. start_backend E d = (Inr (False, ''Backend failed to start within timeout''), d')
                \<and> http_count (events d') = http_count (events d) + 30))
   \<and> (\<forall>d'. start_backend E d = (Inr (False, ''Backend failed to start within timeout''), d')
      \<longrightarrow> http_count (events d') = http_count (events d) + 30)
   \<and> (frontend_launches E d \<and> k < 60 \<and> (\<forall>i<k. not_ready (frontend_probe_reply E d i))
      \<and> frontend_probe_reply E d k = Inr 200
      \<longrightarrow> (\<exists>d'. start_frontend E d = (Inr (True, ''Frontend started successfully''), d')
                \<and> http_count (events d') = http_count (events d) + (k + 1)))
   \<and> (frontend_launches E d \<and> (\<forall>i<60. not_ready (frontend_probe_reply E d i))
      \<longrightarrow> (\<exists>d'. start_frontend E d = (Inr (False, ''Frontend failed to start within timeout''), d')
                \<and> http_count (events d') = http_count (events d) + 60))
   \<and> (\<forall>d'. start_frontend E d = (Inr (False, ''Frontend failed to start within timeout''), d')
      \<longrightarrow> http_count (events d') = http_count (events d) + 60)"
  using start_backend_ready [of E d k] start_backend_timeout [of E d]
    start_backend_timeout_only_after_cap [of E d]
    start_frontend_ready [of E d k] start_frontend_timeout [of E d]
    start_frontend_timeout_only_after_cap [of E d]
  by blast

text \<open>
  On \<open>slow_backend\<close> the first two probes are refused and the third is answered with
  200: three probes, success. On \<open>never_up\<close> every probe is refused: the frontend
  start makes 60 probes and reports the timeout.
\<close>

theorem readiness_loop_first_200_or_cap_witness:
  "fst (start_backend slow_backend (init ''demo'' None)) = Inr (True, ''Backend started successfully'')
   \<and> http_count (events (snd (start_backend slow_backend (init ''demo'' None)))) = 3
   \<and> fst (start_frontend never_up (init ''demo'' None))
       = Inr (False, ''Frontend failed to start within timeout'')
   \<and> http_count (events (snd (start_frontend never_up (init ''demo'' None)))) = 60"
proof -
  let ?d = "init ''demo'' None"
  have a: "backend_launches slow_backend ?d \<and> (2::nat) < 30
      \<and> (\<forall>i<2. not_ready (backend_probe_reply slow_backend ?d i))
      \<and> backend_probe_reply slow_backend ?d 2 = Inr 200"
    by (simp add: backend_launches_def backend_probe_reply_def slow_backend_def calm_def init_def
          not_ready_def)
  have b: "frontend_launches never_up ?d \<and> (\<forall>i<60. not_ready (frontend_probe_reply never_up ?d i))"
    by (simp add: frontend_launches_def frontend_probe_reply_def never_up_def calm_def not_ready_def)
  from a readiness_loop_first_200_or_cap [of slow_backend ?d 2]
  obtain d1 where "start_backend slow_backend ?d = (Inr (True, ''Backend started successfully''), d1)"
    and "http_count (events d1) = http_count (events ?d) + (2 + 1)"
    by blast
  moreover from b readiness_loop_first_200_or_cap [of never_up ?d 0]
  obtain d2 where
    "start_frontend never_up ?d = (Inr (False, ''Frontend failed to start within timeout''), d2)"
    and "http_count (events d2) = http_count (events ?d) + 60"
    by blast
  ultimately show ?thesis by (simp add: init_def)
qed

subsection \<open>Choosing and applying a fix\<close>

lemma snd_finish_fix_fields:
  "events (snd (finish_fix key unable r)) = events (snd r)"
  "tick (snd (finish_fix key unable r)) = tick (snd r)"
  "backend_port (snd (finish_fix key unable r)) = backend_port (snd r)"
  "frontend_port (snd (finish_fix key unable r)) = frontend_port (snd r)"
  "backend_url (snd (finish_fix key unable r)) = backend_url (snd r)"
  "frontend_url (snd (finish_fix key unable r)) = frontend_url (snd r)"
  "environ_port (snd (finish_fix key unable r)) = environ_port (snd r)"
  by (auto simp: finish_fix_def record_fix_def split: prod.splits sum.splits option.splits)

lemma ensure_fix_attempts_fields [simp]:
  "events (ensure_fix_attempts d) = events d"
  "tick (ensure_fix_attempts d) = tick d"
  "project_dir (ensure_fix_attempts d) = project_dir d"
  "backend_port (ensure_fix_attempts d) = backend_port d"
  "frontend_port (ensure_fix_attempts d) = frontend_port d"
  "backend_url (ensure_fix_attempts d) = backend_url d"
  "frontend_url (ensure_fix_attempts d) = frontend_url d"
  "environ_port (ensure_fix_attempts d) = environ_port d"
  by (simp_all add: ensure_fix_attempts_def split: option.splits)

lemma fix_backend_error_returns:
  "\<exists>r. fix_backend_error E err d = (Inr r, snd (fix_backend_try E err (ensure_fix_attempts d)))"
  by (auto simp: fix_backend_error_def split: prod.splits sum.splits)

lemma fix_frontend_error_returns:
  "\<exists>r. fix_frontend_error E err d = (Inr r, snd (fix_frontend_try E err (ensure_fix_attempts d)))"
  by (auto simp: fix_frontend_error_def split: prod.splits sum.splits)

lemma fix_dependency_error_returns:
  "\<exists>r. fix_dependency_error E err d = (Inr r, snd (fix_dependency_try E err (ensure_fix_attempts d)))"
  by (auto simp: fix_dependency_error_def split: prod.splits sum.splits)

lemma analyze_and_fix_error_returns:
  "\<exists>r d'. analyze_and_fix_error E err component d = (Inr r, d')"
  by (auto simp: analyze_and_fix_error_def split: prod.splits sum.splits)

lemma analyze_backend:
  "analyze_and_fix_error E err ''backend'' d = fix_backend_error E err d"
  using fix_backend_error_returns [of E err d]
  by (auto simp: analyze_and_fix_error_def)

lemma analyze_frontend:
  "analyze_and_fix_error E err ''frontend'' d = fix_frontend_error E err d"
  using fix_frontend_error_returns [of E err d]
  by (auto simp: analyze_and_fix_error_def)

lemma analyze_dependencies:
  "analyze_and_fix_error E err ''dependencies'' d = fix_dependency_error E err d"
  using fix_dependency_error_returns [of E err d]
  by (auto simp: analyze_and_fix_error_def)

lemma run_then_fields:
  "events (snd (run_then E cmd cwd fa d)) = events d @ [Run cmd cwd]"
  "backend_port (snd (run_then E cmd cwd fa d)) = backend_port d"
  "frontend_port (snd (run_then E cmd cwd fa d)) = frontend_port d"
  by (simp_all add: run_then_def subprocess_run_def split: option.splits)

lemma run_each_ports:
  "backend_port (snd (run_each E cmds cwd d)) = backend_port d"
proof (induction cmds arbitrary: d)
  case Nil
  then show ?case by simp
next
  case (Cons c cs)
  from Cons [of "snd (subprocess_run E c cwd d)"] show ?case
    by (cases "run_at E (tick d) c cwd") (auto simp: subprocess_run_def)
qed

lemma snd_rewrap:
  "snd (case x of (Inl e, d1) \<Rightarrow> (Inl e, d1) | (Inr u, d1) \<Rightarrow> (Inr (f u), d1)) = snd x"
  by (auto split: prod.splits sum.splits)

lemma run_each_events:
  "\<exists>rest. events (snd (run_each E (cmd # cmds) cwd d)) = events d @ Run cmd cwd # rest"
proof -
  have "\<exists>rest. events (snd (run_each E cs cwd d)) = events d @ rest" for cs d
  proof (induction cs arbitrary: d)
    case Nil
    then show ?case by simp
  next
    case (Cons c cs)
    show ?case
    proof (cases "run_at E (tick d) c cwd")
      case None
      from Cons [of "snd (subprocess_run E c cwd d)"] None show ?thesis
        by (auto simp: subprocess_run_def)
    next
      case (Some e)
      then show ?thesis by (simp add: subprocess_run_def)
    qed
  qed
  from this [of cmds "snd (subprocess_run E cmd cwd d)"] show ?thesis
    by (cases "run_at E (tick d) cmd cwd") (auto simp: subprocess_run_def)
qed


lemma create_basic_package_json_fields:
  "events (snd (create_basic_package_json E dir d))
     = events d @ [WriteFile (path_join dir ''package.json'') basic_package_json]"
  "frontend_port (snd (create_basic_package_json E dir d)) = frontend_port d"
  by (simp_all add: create_basic_package_json_def write_file_def split: option.splits)

lemma backend_choice:
  assumes run: "analyze_and_fix_error E err ''backend'' d = (Inr r, d')"
  shows "py_in ''ModuleNotFoundError'' err
      \<longrightarrow> backend_port d' = backend_port d \<and>
          (case split_on (CHR 0x27) err of
             p0 # module_name # ps \<Rightarrow>
               events d' = events d @ [Run [executable E, ''-m'', ''pip'', ''install'', module_name] (Some (path_join (project_dir d) ''backend''))]
           | _ \<Rightarrow> events d' = events d)"
    and "\<not> py_in ''ModuleNotFoundError'' err \<and> py_in ''Address already in use'' err
      \<longrightarrow> events d' = events d \<and> backend_port d' = backend_port d + 1
          \<and> backend_url d' = ''http://localhost:'' @ py_str (backend_port d + 1)"
    and "\<not> py_in ''ModuleNotFoundError'' err \<and> \<not> py_in ''Address already in use'' err \<and> py_in (''No module named '' @ sq @ ''flask'' @ sq) err
      \<longrightarrow> backend_port d' = backend_port d
          \<and> events d' = events d @ [Run [executable E, ''-m'', ''pip'', ''install'', ''flask''] (Some (path_join (project_dir d) ''backend''))]"
    and "\<not> py_in ''ModuleNotFoundError'' err \<and> \<not> py_in ''Address already in use'' err \<and> \<not> py_in (''No module named '' @ sq @ ''flask'' @ sq) err \<and> py_in ''SQLAlchemy'' err
      \<longrightarrow> backend_port d' = backend_port d
          \<and> (\<exists>rest. events d' = events d @ Run [''pip'', ''install'', ''sqlalchemy''] (Some (path_join (project_dir d) ''backend'')) # rest)"
    and "\<not> py_in ''ModuleNotFoundError'' err \<and> \<not> py_in ''Address already in use'' err \<and> \<not> py_in (''No module named '' @ sq @ ''flask'' @ sq) err \<and> \<not> py_in ''SQLAlchemy'' err
      \<longrightarrow> r = (False, ''Unable to automatically fix this backend error'') \<and> d' = ensure_fix_attempts d"
proof -
  have d': "d' = snd (fix_backend_try E err (ensure_fix_attempts d))"
    using run fix_backend_error_returns [of E err d] by (auto simp: analyze_backend)
  have unmatched: "\<not> py_in ''ModuleNotFoundError'' err \<Longrightarrow> \<not> py_in ''Address already in use'' err \<Longrightarrow> \<not> py_in (''No module named '' @ sq @ ''flask'' @ sq) err \<Longrightarrow> \<not> py_in ''SQLAlchemy'' err
      \<Longrightarrow> fix_backend_error E err d
          = (Inr (False, ''Unable to automatically fix this backend error''), ensure_fix_attempts d)"
    by (simp add: fix_backend_error_def fix_backend_try_def finish_fix_def)
  show "py_in ''ModuleNotFoundError'' err
      \<longrightarrow> backend_port d' = backend_port d \<and>
          (case split_on (CHR 0x27) err of
             p0 # module_name # ps \<Rightarrow>
               events d' = events d @ [Run [executable E, ''-m'', ''pip'', ''install'', module_name] (Some (path_join (project_dir d) ''backend''))]
           | _ \<Rightarrow> events d' = events d)"
    unfolding d'
    by (auto simp: fix_backend_try_def snd_finish_fix_fields run_then_fields split: list.splits)
  show "\<not> py_in ''ModuleNotFoundError'' err \<and> py_in ''Address already in use'' err
      \<longrightarrow> events d' = events d \<and> backend_port d' = backend_port d + 1
          \<and> backend_url d' = ''http://localhost:'' @ py_str (backend_port d + 1)"
    unfolding d'
    by (auto simp: fix_backend_try_def snd_finish_fix_fields Let_def)
  show "\<not> py_in ''ModuleNotFoundError'' err \<and> \<not> py_in ''Address already in use'' err \<and> py_in (''No module named '' @ sq @ ''flask'' @ sq) err
      \<longrightarrow> backend_port d' = backend_port d
          \<and> events d' = events d @ [Run [executable E, ''-m'', ''pip'', ''install'', ''flask''] (Some (path_join (project_dir d) ''backend''))]"
    unfolding d'
    by (auto simp: fix_backend_try_def snd_finish_fix_fields run_then_fields)
  show "\<not> py_in ''ModuleNotFoundError'' err \<and> \<not> py_in ''Address already in use'' err \<and> \<not> py_in (''No module named '' @ sq @ ''flask'' @ sq) err \<and> py_in ''SQLAlchemy'' err
      \<longrightarrow> backend_port d' = backend_port d
          \<and> (\<exists>rest. events d' = events d @ Run [''pip'', ''install'', ''sqlalchemy''] (Some (path_join (project_dir d) ''backend'')) # rest)"
    unfolding d'
    using run_each_events [of E "[''pip'', ''install'', ''sqlalchemy'']" _
            "Some (path_join (project_dir d) ''backend'')" "ensure_fix_attempts d"]
    by (auto simp: fix_backend_try_def snd_finish_fix_fields snd_rewrap run_each_ports
             simp del: run_each.simps)
  show "\<not> py_in ''ModuleNotFoundError'' err \<and> \<not> py_in ''Address already in use'' err \<and> \<not> py_in (''No module named '' @ sq @ ''flask'' @ sq) err \<and> \<not> py_in ''SQLAlchemy'' err
      \<longrightarrow> r = (False, ''Unable to automatically fix this backend error'') \<and> d' = ensure_fix_attempts d"
    using run unmatched by (auto simp: analyze_backend)
qed

lemma frontend_choice:
  assumes run: "analyze_and_fix_error E err ''frontend'' d = (Inr r, d')"
  shows "(py_in ''ENOENT'' err \<and> py_in ''package.json'' err)
      \<longrightarrow> frontend_port d' = frontend_port d
          \<and> events d' = events d @ [WriteFile (path_join (path_join (project_dir d) ''frontend'') ''package.json'') basic_package_json]"
    and "\<not> (py_in ''ENOENT'' err \<and> py_in ''package.json'' err) \<and> py_in ''react-scripts'' err
      \<longrightarrow> frontend_port d' = frontend_port d
          \<and> events d' = events d @ [Run [''npm'', ''install'', ''react-scripts'', ''--save-dev''] (Some (path_join (project_dir d) ''frontend''))]"
    and "\<not> (py_in ''ENOENT'' err \<and> py_in ''package.json'' err) \<and> \<not> py_in ''react-scripts'' err \<and> py_in ''EADDRINUSE'' err
      \<longrightarrow> events d' = events d \<and> frontend_port d' = frontend_port d + 1
          \<and> environ_port d' = Some (py_str (frontend_port d + 1))
          \<and> frontend_url d' = ''http://localhost:'' @ py_str (frontend_port d + 1)"
    and "\<not> (py_in ''ENOENT'' err \<and> py_in ''package.json'' err) \<and> \<not> py_in ''react-scripts'' err \<and> \<not> py_in ''EADDRINUSE'' err
      \<longrightarrow> r = (False, ''Unable to automatically fix this frontend error'') \<and> d' = ensure_fix_attempts d"
proof -
  have d': "d' = snd (fix_frontend_try E err (ensure_fix_attempts d))"
    using run fix_frontend_error_returns [of E err d] by (auto simp: analyze_frontend)
  have unmatched: "\<not> (py_in ''ENOENT'' err \<and> py_in ''package.json'' err) \<Longrightarrow> \<not> py_in ''react-scripts'' err \<Longrightarrow> \<not> py_in ''EADDRINUSE'' err
      \<Longrightarrow> fix_frontend_error E err d
          = (Inr (False, ''Unable to automatically fix this frontend error''), ensure_fix_attempts d)"
    by (auto simp: fix_frontend_error_def fix_frontend_try_def finish_fix_def)
  show "(py_in ''ENOENT'' err \<and> py_in ''package.json'' err)
      \<longrightarrow> frontend_port d' = frontend_port d
          \<and> events d' = events d @ [WriteFile (path_join (path_join (project_dir d) ''frontend'') ''package.json'') basic_package_json]"
    unfolding d'
    by (auto simp: fix_frontend_try_def snd_finish_fix_fields snd_rewrap Let_def
          create_basic_package_json_fields)
  show "\<not> (py_in ''ENOENT'' err \<and> py_in ''package.json'' err) \<and> py_in ''react-scripts'' err
      \<longrightarrow> frontend_port d' = frontend_port d
          \<and> events d' = events d @ [Run [''npm'', ''install'', ''react-scripts'', ''--save-dev''] (Some (path_join (project_dir d) ''frontend''))]"
    unfolding d'
    by (auto simp: fix_frontend_try_def snd_finish_fix_fields run_then_fields)
  show "\<not> (py_in ''ENOENT'' err \<and> py_in ''package.json'' err) \<and> \<not> py_in ''react-scripts'' err \<and> py_in ''EADDRINUSE'' err
      \<longrightarrow> events d' = events d \<and> frontend_port d' = frontend_port d + 1
          \<and> environ_port d' = Some (py_str (frontend_port d + 1))
          \<and> frontend_url d' = ''http://localhost:'' @ py_str (frontend_port d + 1)"
    unfolding d'
    by (auto simp: fix_frontend_try_def snd_finish_fix_fields Let_def)
  show "\<not> (py_in ''ENOENT'' err \<and> py_in ''package.json'' err) \<and> \<not> py_in ''react-scripts'' err \<and> \<not> py_in ''EADDRINUSE'' err
      \<longrightarrow> r = (False, ''Unable to automatically fix this frontend error'') \<and> d' = ensure_fix_attempts d"
    using run unmatched by (auto simp: analyze_frontend)
qed

lemma dependency_choice:
  assumes run: "analyze_and_fix_error E err ''dependencies'' d = (Inr r, d')"
  shows "py_in ''npm'' (py_lower err)
      \<longrightarrow> events d' = events d @
            [Run (if platform E = ''win32'' then [''npm'', ''install'', ''-g'', ''npm'']
                  else [''sudo'', ''npm'', ''install'', ''-g'', ''npm'']) None]"
    and "\<not> py_in ''npm'' (py_lower err) \<and> (py_in ''python'' (py_lower err) \<or> py_in ''pip'' (py_lower err))
      \<longrightarrow> events d' = events d @ [Run [executable E, ''-m'', ''pip'', ''install'', ''--upgrade'', ''pip''] None]"
    and "\<not> py_in ''npm'' (py_lower err) \<and> \<not> (py_in ''python'' (py_lower err) \<or> py_in ''pip'' (py_lower err))
      \<longrightarrow> r = (False, ''Unable to automatically fix this dependency error'') \<and> d' = ensure_fix_attempts d"
proof -
  have d': "d' = snd (fix_dependency_try E err (ensure_fix_attempts d))"
    using run fix_dependency_error_returns [of E err d] by (auto simp: analyze_dependencies)
  have unmatched: "\<not> py_in ''npm'' (py_lower err) \<Longrightarrow> \<not> (py_in ''python'' (py_lower err) \<or> py_in ''pip'' (py_lower err))
      \<Longrightarrow> fix_dependency_error E err d
          = (Inr (False, ''Unable to automatically fix this dependency error''), ensure_fix_attempts d)"
    by (auto simp: fix_dependency_error_def fix_dependency_try_def finish_fix_def)
  show "py_in ''npm'' (py_lower err)
      \<longrightarrow> events d' = events d @
            [Run (if platform E = ''win32'' then [''npm'', ''install'', ''-g'', ''npm'']
                  else [''sudo'', ''npm'', ''install'', ''-g'', ''npm'']) None]"
    unfolding d'
    by (auto simp: fix_dependency_try_def snd_finish_fix_fields run_then_fields)
  show "\<not> py_in ''npm'' (py_lower err) \<and> (py_in ''python'' (py_lower err) \<or> py_in ''pip'' (py_lower err))
      \<longrightarrow> events d' = events d @ [Run [executable E, ''-m'', ''pip'', ''install'', ''--upgrade'', ''pip''] None]"
    unfolding d'
    by (auto simp: fix_dependency_try_def snd_finish_fix_fields run_then_fields)
  show "\<not> py_in ''npm'' (py_lower err) \<and> \<not> (py_in ''python'' (py_lower err) \<or> py_in ''pip'' (py_lower err))
      \<longrightarrow> r = (False, ''Unable to automatically fix this dependency error'') \<and> d' = ensure_fix_attempts d"
    using run unmatched by (auto simp: analyze_dependencies)
qed

text \<open>
  C8. \<open>_analyze_and_fix_error\<close> is a function of the error string, the component and
  the state of the object and the machine, and it always returns a pair (never raises).
  Which fix it attempts is decided by the first test of the component's chain that the
  error string passes: the fix of a later test is attempted only when every earlier test
  fails. The attempted fix shows in the commands run, the file written or the port
  changed. When no test passes, the result is \<open>False\<close> with the "Unable to
  automatically fix" message, and nothing changes but the creation of the fix ledger;
  for a component outside the three known ones the state is untouched.
\<close>

theorem fix_is_total_and_first_match:
  "\<exists>r d'. analyze_and_fix_error E err component d = (Inr r, d')
     \<and> (component = ''backend'' \<longrightarrow>
         (py_in ''ModuleNotFoundError'' err
             \<longrightarrow> backend_port d' = backend_port d \<and>
          (case split_on (CHR 0x27) err of
             p0 # module_name # ps \<Rightarrow>
               events d' = events d @ [Run [executable E, ''-m'', ''pip'', ''install'', module_name] (Some (path_join (project_dir d) ''backend''))]
           | _ \<Rightarrow> events d' = events d))
         \<and> (\<not> py_in ''ModuleNotFoundError'' err \<and> py_in ''Address already in use'' err
             \<longrightarrow> events d' = events d \<and> backend_port d' = backend_port d + 1
          \<and> backend_url d' = ''http://localhost:'' @ py_str (backend_port d + 1))
         \<and> (\<not> py_in ''ModuleNotFoundError'' err \<and> \<not> py_in ''Address already in use'' err \<and> py_in (''No module named '' @ sq @ ''flask'' @ sq) err
             \<longrightarrow> backend_port d' = backend_port d
          \<and> events d' = events d @ [Run [executable E, ''-m'', ''pip'', ''install'', ''flask''] (Some (path_join (project_dir d) ''backend''))])
         \<and> (\<not> py_in ''ModuleNotFoundError'' err \<and> \<not> py_in ''Address already in use'' err \<and> \<not> py_in (''No module named '' @ sq @ ''flask'' @ sq) err \<and> py_in ''SQLAlchemy'' err
             \<longrightarrow> backend_port d' = backend_port d
          \<and> (\<exists>rest. events d' = events d @ Run [''pip'', ''install'', ''sqlalchemy''] (Some (path_join (project_dir d) ''backend'')) # rest))
         \<and> (\<not> py_in ''ModuleNotFoundError'' err \<and> \<not> py_in ''Address already in use'' err \<and> \<not> py_in (''No module named '' @ sq @ ''flask'' @ sq) err \<and> \<not> py_in ''SQLAlchemy'' err
             \<longrightarrow> r = (False, ''Unable to automatically fix this backend error'') \<and> d' = ensure_fix_attempts d))
     \<and> (component = ''frontend'' \<longrightarrow>
         ((py_in ''ENOENT'' err \<and> py_in ''package.json'' err)
             \<longrightarrow> frontend_port d' = frontend_port d
          \<and> events d' = events d @ [WriteFile (path_join (path_join (project_dir d) ''frontend'') ''package.json'') basic_package_json])
         \<and> (\<not> (py_in ''ENOENT'' err \<and> py_in ''package.json'' err) \<and> py_in ''react-scripts'' err
             \<longrightarrow> frontend_port d' = frontend_port d
          \<and> events d' = events d @ [Run [''npm'', ''install'', ''react-scripts'', ''--save-dev''] (Some (path_join (project_dir d) ''frontend''))])
         \<and> (\<not> (py_in ''ENOENT'' err \<and> py_in ''package.json'' err) \<and> \<not> py_in ''react-scripts'' err \<and> py_in ''EADDRINUSE'' err
             \<longrightarrow> events d' = events d \<and> frontend_port d' = frontend_port d + 1
          \<and> environ_port d' = Some (py_str (frontend_port d + 1))
          \<and> frontend_url d' = ''http://localhost:'' @ py_str (frontend_port d + 1))
         \<and> (\<not> (py_in ''ENOENT'' err \<and> py_in ''package.json'' err) \<and> \<not> py_in ''react-scripts'' err \<and> \<not> py_in ''EADDRINUSE'' err
             \<longrightarrow> r = (False, ''Unable to automatically fix this frontend error'') \<and> d' = ensure_fix_attempts d))
     \<and> (component = ''dependencies'' \<longrightarrow>
         (py_in ''npm'' (py_lower err)
             \<longrightarrow> events d' = events d @
            [Run (if platform E = ''win32'' then [''npm'', ''install'', ''-g'', ''npm'']
                  else [''sudo'', ''npm'', ''install'', ''-g'', ''npm'']) None])
         \<and> (\<not> py_in ''npm'' (py_lower err) \<and> (py_in ''python'' (py_lower err) \<or> py_in ''pip'' (py_lower err))
             \<longrightarrow> events d' = events d @ [Run [executable E, ''-m'', ''pip'', ''install'', ''--upgrade'', ''pip''] None])
         \<and> (\<not> py_in ''npm'' (py_lower err) \<and> \<not> (py_in ''python'' (py_lower err) \<or> py_in ''pip'' (py_lower err))
             \<longrightarrow> r = (False, ''Unable to automatically fix this dependency error'') \<and> d' = ensure_fix_attempts d))
     \<and> (component \<noteq> ''backend'' \<and> component \<noteq> ''frontend'' \<and> component \<noteq> ''dependencies''
         \<longrightarrow> r = (False, ''Unknown component: '' @ component) \<and> d' = d)"
proof -
  obtain r d' where run: "analyze_and_fix_error E err component d = (Inr r, d')"
    using analyze_and_fix_error_returns by blast
  have other: "component \<noteq> ''backend'' \<Longrightarrow> component \<noteq> ''frontend'' \<Longrightarrow> component \<noteq> ''dependencies''
      \<Longrightarrow> r = (False, ''Unknown component: '' @ component) \<and> d' = d"
    using run by (simp add: analyze_and_fix_error_def)
  show ?thesis
    apply (intro exI [of _ r] exI [of _ d'] conjI)
    subgoal by (rule run)
    subgoal using run backend_choice [of E err d r d'] by blast
    subgoal using run frontend_choice [of E err d r d'] by blast
    subgoal using run dependency_choice [of E err d r d'] by blast
    subgoal using other by blast
    done
qed

text \<open>
  \<open>port_and_module\<close> passes both the first test of the backend chain and the second.
  The first wins: the named module is installed and the port stays at 5000.
\<close>

theorem fix_is_total_and_first_match_witness:
  "events (snd (analyze_and_fix_error calm port_and_module ''backend'' (init ''demo'' None)))
     = [Run [''python3'', ''-m'', ''pip'', ''install'', ''redis''] (Some ''demo/backend'')]
   \<and> backend_port (snd (analyze_and_fix_error calm port_and_module ''backend'' (init ''demo'' None)))
     = 5000"
proof -
  let ?d = "init ''demo'' None"
  have m: "py_in ''ModuleNotFoundError'' port_and_module"
    by (simp add: port_and_module_def missing_redis_def)
  have s: "split_on (CHR 0x27) port_and_module
             = [''OSError: [Errno 98] Address already in use; ModuleNotFoundError: No module named '',
                ''redis'', []]"
    by (simp add: port_and_module_def missing_redis_def)
  have f: "executable calm = ''python3''" "project_dir ?d = ''demo''" "events ?d = []"
    "backend_port ?d = 5000" "path_join ''demo'' ''backend'' = ''demo/backend''"
    by (simp_all add: calm_def init_def path_join_def)
  from fix_is_total_and_first_match [of calm port_and_module "''backend''" ?d]
  show ?thesis
    unfolding s f by (elim exE conjE) (simp add: m)
qed

text \<open>
  C9. Whatever the error string, the component and the machine, \<open>_analyze_and_fix_error\<close>
  returns a pair. An exception raised inside the \<open>try\<close> of a fixer becomes the result
  \<open>False\<close> with the message "<Component> fix failed: <str(e)>", for each of the three
  fixers. Two instances for the backend: the installer call for a missing module raises,
  and the error string names \<open>ModuleNotFoundError\<close> without a quoted module name
  (\<open>IndexError\<close> in \<open>error.split("'")[1]\<close>).
\<close>

theorem fix_failures_are_contained:
  "(\<exists>r d'. analyze_and_fix_error E err component d = (Inr r, d'))
   \<and> (\<forall>e d1. fix_backend_try E err (ensure_fix_attempts d) = (Inl e, d1)
         \<longrightarrow> analyze_and_fix_error E err ''backend'' d
               = (Inr (False, ''Backend fix failed: '' @ exn_str e), d1))
   \<and> (\<forall>e d1. fix_frontend_try E err (ensure_fix_attempts d) = (Inl e, d1)
         \<longrightarrow> analyze_and_fix_error E err ''frontend'' d
               = (Inr (False, ''Frontend fix failed: '' @ exn_str e), d1))
   \<and> (\<forall>e d1. fix_dependency_try E err (ensure_fix_attempts d) = (Inl e, d1)
         \<longrightarrow> analyze_and_fix_error E err ''dependencies'' d
               = (Inr (False, ''Dependency fix failed: '' @ exn_str e), d1))
   \<and> (\<forall>e p0 module_name ps.
         py_in ''ModuleNotFoundError'' err \<and> split_on (CHR 0x27) err = p0 # module_name # ps
         \<and> run_at E (tick d) [executable E, ''-m'', ''pip'', ''install'', module_name]
              (Some (path_join (project_dir d) ''backend'')) = Some e
         \<longrightarrow> fst (analyze_and_fix_error E err ''backend'' d)
               = Inr (False, ''Backend fix failed: '' @ exn_str e))
   \<and> (py_in ''ModuleNotFoundError'' err \<and> length (split_on (CHR 0x27) err) < 2
         \<longrightarrow> fst (analyze_and_fix_error E err ''backend'' d)
               = Inr (False, ''Backend fix failed: list index out of range''))"
proof (intro conjI allI impI)
  show "\<exists>r d'. analyze_and_fix_error E err component d = (Inr r, d')"
    by (rule analyze_and_fix_error_returns)
next
  fix e d1 assume "fix_backend_try E err (ensure_fix_attempts d) = (Inl e, d1)"
  then show "analyze_and_fix_error E err ''backend'' d
               = (Inr (False, ''Backend fix failed: '' @ exn_str e), d1)"
    by (simp add: analyze_backend fix_backend_error_def)
next
  fix e d1 assume "fix_frontend_try E err (ensure_fix_attempts d) = (Inl e, d1)"
  then show "analyze_and_fix_error E err ''frontend'' d
               = (Inr (False, ''Frontend fix failed: '' @ exn_str e), d1)"
    by (simp add: analyze_frontend fix_frontend_error_def)
next
  fix e d1 assume "fix_dependency_try E err (ensure_fix_attempts d) = (Inl e, d1)"
  then show "analyze_and_fix_error E err ''dependencies'' d
               = (Inr (False, ''Dependency fix failed: '' @ exn_str e), d1)"
    by (simp add: analyze_dependencies fix_dependency_error_def)
next
  fix e p0 name ps
  assume "py_in ''ModuleNotFoundError'' err \<and> split_on (CHR 0x27) err = p0 # name # ps
         \<and> run_at E (tick d) [executable E, ''-m'', ''pip'', ''install'', name]
              (Some (path_join (project_dir d) ''backend'')) = Some e"
  then show "fst (analyze_and_fix_error E err ''backend'' d)
               = Inr (False, ''Backend fix failed: '' @ exn_str e)"
    by (simp add: analyze_backend fix_backend_error_def fix_backend_try_def finish_fix_def
          run_then_def subprocess_run_def)
next
  assume a: "py_in ''ModuleNotFoundError'' err \<and> length (split_on (CHR 0x27) err) < 2"
  then have "(case split_on (CHR 0x27) err of
                p0 # module_name # ps \<Rightarrow> f module_name
              | _ \<Rightarrow> g) = g" for f :: "string \<Rightarrow> (string option) outcome" and g
    by (auto split: list.splits)
  with a show "fst (analyze_and_fix_error E err ''backend'' d)
               = Inr (False, ''Backend fix failed: list index out of range'')"
    by (simp add: analyze_backend fix_backend_error_def fix_backend_try_def finish_fix_def)
qed

text \<open>
  On \<open>installer_broken\<close> every subprocess call exits with a non-zero status. The fix
  for a missing module reports the failure instead of raising.
\<close>

theorem fix_failures_are_contained_witness:
  "fst (analyze_and_fix_error installer_broken missing_redis ''backend'' (init ''demo'' None))
     = Inr (False, ''Backend fix failed: Command returned non-zero exit status 1.'')"
proof -
  let ?d = "init ''demo'' None"
  let ?e = "Exn CalledProcessError ''Command returned non-zero exit status 1.''"
  have h: "py_in ''ModuleNotFoundError'' missing_redis
        \<and> split_on (CHR 0x27) missing_redis = [''ModuleNotFoundError: No module named '', ''redis'', []]
        \<and> run_at installer_broken (tick ?d) [executable installer_broken, ''-m'', ''pip'', ''install'', ''redis'']
              (Some (path_join (project_dir ?d) ''backend'')) = Some ?e"
    by (simp add: missing_redis_def installer_broken_def calm_def)
  from fix_failures_are_contained [of installer_broken missing_redis "''backend''" ?d]
  have "\<forall>e p0 module_name ps.
         py_in ''ModuleNotFoundError'' missing_redis
         \<and> split_on (CHR 0x27) missing_redis = p0 # module_name # ps
         \<and> run_at installer_broken (tick ?d) [executable installer_broken, ''-m'', ''pip'', ''install'', module_name]
              (Some (path_join (project_dir ?d) ''backend'')) = Some e
         \<longrightarrow> fst (analyze_and_fix_error installer_broken missing_redis ''backend'' ?d)
               = Inr (False, ''Backend fix failed: '' @ exn_str e)"
    by (elim conjE)
  from this [rule_format, OF h] show ?thesis by simp
qed

subsection \<open>Decimal strings\<close>

lemma py_in_hd_mem: "py_in (c # cs) s \<Longrightarrow> c \<in> set s"
  by (induction s) auto

lemma digit_char_mem: "n < 10 \<Longrightarrow> digit_char n \<in> set ''0123456789''"
  unfolding digit_char_def by (rule nth_mem) simp

lemma digit_char_inj: "n < 10 \<Longrightarrow> m < 10 \<Longrightarrow> digit_char n = digit_char m \<Longrightarrow> n = m"
proof -
  have "distinct ''0123456789''" by simp
  then show "n < 10 \<Longrightarrow> m < 10 \<Longrightarrow> digit_char n = digit_char m \<Longrightarrow> n = m"
    unfolding digit_char_def by (simp add: nth_eq_iff_index_eq)
qed

lemma str_nat_not_Nil: "str_nat n \<noteq> []"
  by (subst str_nat.simps) simp

lemma str_nat_digits: "set (str_nat n) \<subseteq> set ''0123456789''"
proof (induction n rule: str_nat.induct)
  case (1 n)
  show ?case
  proof (cases "n < 10")
    case True
    then show ?thesis using digit_char_mem [of n] by (subst str_nat.simps) simp
  next
    case False
    have "n mod 10 < 10" by simp
    from digit_char_mem [OF this] 1 [OF False] False show ?thesis
      by (subst str_nat.simps) simp
  qed
qed

lemma str_nat_inj: "str_nat n = str_nat m \<Longrightarrow> n = m"
proof (induction n arbitrary: m rule: str_nat.induct)
  case (1 n)
  show ?case
  proof (cases "n < 10")
    case n: True
    show ?thesis
    proof (cases "m < 10")
      case True
      with n 1(2) show ?thesis
        by (simp add: str_nat.simps [of n] str_nat.simps [of m] digit_char_inj)
    next
      case False
      with n 1(2) str_nat_not_Nil [of "m div 10"] show ?thesis
        by (simp add: str_nat.simps [of n] str_nat.simps [of m])
    qed
  next
    case n: False
    show ?thesis
    proof (cases "m < 10")
      case True
      with n 1(2) str_nat_not_Nil [of "n div 10"] show ?thesis
        by (simp add: str_nat.simps [of n] str_nat.simps [of m])
    next
      case False
      with n 1(2) have eq: "str_nat (n div 10) = str_nat (m div 10)"
        and dg: "digit_char (n mod 10) = digit_char (m mod 10)"
        by (simp_all add: str_nat.simps [of n] str_nat.simps [of m])
      from 1(1) [OF n eq] have "n div 10 = m div 10" .
      moreover from dg have "n mod 10 = m mod 10" by (intro digit_char_inj) simp_all
      ultimately show ?thesis by (metis div_mult_mod_eq)
    qed
  qed
qed

lemma py_str_inj: "0 \<le> i \<Longrightarrow> 0 \<le> j \<Longrightarrow> py_str i = py_str j \<Longrightarrow> i = j"
  by (auto simp: py_str_def dest!: str_nat_inj)

lemma py_str_no_M: "0 \<le> i \<Longrightarrow> \<not> py_in (CHR ''M'' # cs) (py_str i)"
proof
  assume "0 \<le> i" and "py_in (CHR ''M'' # cs) (py_str i)"
  then have "CHR ''M'' \<in> set (str_nat (nat i))"
    using py_in_hd_mem [of "CHR ''M''" cs "py_str i"] by (simp add: py_str_def)
  with str_nat_digits [of "nat i"] show False by auto
qed

subsection \<open>The retry loop\<close>

lemma retry_loop_exit:
  "\<not> attempt \<le> max_attempts \<Longrightarrow>
     retry_loop E component func max_attempts attempt last_error errors_seen d
       = Some (Inr (False, ''Failed to fix '' @ component @ '' after '' @ py_str max_attempts
                      @ '' attempts. Last error: '' @ last_error), d)"
  by (subst retry_loop.simps) simp

lemma retry_loop_seen:
  "attempt \<le> max_attempts \<Longrightarrow> last_error \<in> errors_seen \<Longrightarrow>
     retry_loop E component func max_attempts attempt last_error errors_seen d
       = retry_loop E component func max_attempts (attempt + 1) last_error errors_seen d"
  by (subst retry_loop.simps) simp

lemma retry_loop_new:
  "attempt \<le> max_attempts \<Longrightarrow> last_error \<notin> errors_seen \<Longrightarrow>
     retry_loop E component func max_attempts attempt last_error errors_seen d
       = (case analyze_and_fix_error E last_error component d of
            (Inl e, d1) \<Rightarrow> Some (Inl e, d1)
          | (Inr (fixed, fix_message), d1) \<Rightarrow>
              if fixed then
                (case func d1 of
                   (Inl e, d2) \<Rightarrow> Some (Inl e, d2)
                 | (Inr (success, new_message), d2) \<Rightarrow>
                     if success then Some (Inr (True, new_message), d2)
                     else retry_loop E component func max_attempts attempt new_message
                            (insert last_error errors_seen) d2)
              else retry_loop E component func max_attempts (attempt + 1) last_error
                     (insert last_error errors_seen) d1)"
  by (subst retry_loop.simps) simp

lemma retry_loop_seen_fails:
  assumes "last_error \<in> errors_seen"
  shows "retry_loop E component func max_attempts attempt last_error errors_seen d
       = Some (Inr (False, ''Failed to fix '' @ component @ '' after '' @ py_str max_attempts
                      @ '' attempts. Last error: '' @ last_error), d)"
proof (induction "nat (max_attempts + 1 - attempt)" arbitrary: attempt)
  case 0
  then have "\<not> attempt \<le> max_attempts" by simp
  then show ?case by (rule retry_loop_exit)
next
  case (Suc n)
  then have le: "attempt \<le> max_attempts" by simp
  from Suc(2) have "n = nat (max_attempts + 1 - (attempt + 1))" by simp
  from Suc(1) [OF this] retry_loop_seen [OF le assms] show ?case by simp
qed

lemma ledger_keys_kept:
  "fst ` (\<lambda>(k, v). if k = key then (k, v @ [x]) else (k, v)) ` S = fst ` S"
proof -
  have "fst ((\<lambda>(k, v). if k = key then (k, v @ [x]) else (k, v)) p) = fst p" for p
    by (cases p) simp
  then show ?thesis by (simp add: image_image)
qed

lemma record_fix_ok:
  assumes "fix_attempts d = Some fa" and "key \<in> fst ` set fa"
  shows "\<exists>fa'. record_fix key x d = (Inr (), d\<lparr>fix_attempts := Some fa'\<rparr>)
                \<and> key \<in> fst ` set fa'"
proof -
  let ?fa' = "map (\<lambda>(k, v). if k = key then (k, v @ [x]) else (k, v)) fa"
  have "record_fix key x d = (Inr (), d\<lparr>fix_attempts := Some ?fa'\<rparr>)"
    using assms by (simp add: record_fix_def)
  moreover have "fst ` set ?fa' = fst ` set fa"
    by (simp only: set_map ledger_keys_kept)
  ultimately show ?thesis using assms(2) by blast
qed

lemma fix_port_in_use:
  assumes "\<not> py_in ''ModuleNotFoundError'' err" and "py_in ''Address already in use'' err"
    and "case fix_attempts d of None \<Rightarrow> True | Some fa \<Rightarrow> ''backend'' \<in> fst ` set fa"
  shows "\<exists>d'. analyze_and_fix_error E err ''backend'' d
            = (Inr (True, ''Changed backend port to '' @ py_str (backend_port d + 1)), d')
          \<and> backend_port d' = backend_port d + 1
          \<and> backend_url d' = ''http://localhost:'' @ py_str (backend_port d + 1)
          \<and> (case fix_attempts d' of None \<Rightarrow> True | Some fa \<Rightarrow> ''backend'' \<in> fst ` set fa)
          \<and> events d' = events d \<and> tick d' = tick d"
proof -
  let ?d0 = "ensure_fix_attempts d"
  let ?d2 = "?d0\<lparr>backend_port := backend_port d + 1,
                backend_url := ''http://localhost:'' @ py_str (backend_port d + 1)\<rparr>"
  let ?msg = "''Changed backend port to '' @ py_str (backend_port d + 1)"
  obtain fa where fa: "fix_attempts ?d2 = Some fa" and key: "''backend'' \<in> fst ` set fa"
    using assms(3) by (auto simp: ensure_fix_attempts_def split: option.splits)
  from record_fix_ok [OF fa key, of ?msg] obtain fa' where
    rec: "record_fix ''backend'' ?msg ?d2 = (Inr (), ?d2\<lparr>fix_attempts := Some fa'\<rparr>)"
    and key': "''backend'' \<in> fst ` set fa'" by blast
  have "fix_backend_try E err ?d0 = (Inr (True, ?msg), ?d2\<lparr>fix_attempts := Some fa'\<rparr>)"
    using assms(1,2) rec by (simp add: fix_backend_try_def finish_fix_def Let_def)
  then have "analyze_and_fix_error E err ''backend'' d
               = (Inr (True, ?msg), ?d2\<lparr>fix_attempts := Some fa'\<rparr>)"
    by (simp add: analyze_and_fix_error_def fix_backend_error_def)
  with key' show ?thesis by simp
qed

text \<open>
  C2. When the loop is at an error string that is already in \<open>errors_seen\<close>, the
  iteration only increments \<open>attempt\<close>, and the session ends in failure with that error
  as the last error and the object exactly as it was: the result does not depend on the
  fixer or on the wrapped operation, neither is called again. In particular, when a fix
  was applied for an error and the retried operation fails with the identical string,
  the session ends in the state the failed operation left.
\<close>

theorem repeated_error_ends_the_session:
  "(attempt \<le> max_attempts \<and> last_error \<in> errors_seen
      \<longrightarrow> retry_loop E component func max_attempts attempt last_error errors_seen d
            = retry_loop E component func max_attempts (attempt + 1) last_error errors_seen d)
   \<and> (last_error \<in> errors_seen
      \<longrightarrow> retry_loop E component func max_attempts attempt last_error errors_seen d
            = Some (Inr (False, ''Failed to fix '' @ component @ '' after '' @ py_str max_attempts
                           @ '' attempts. Last error: '' @ last_error), d))
   \<and> (attempt \<le> max_attempts \<and> last_error \<notin> errors_seen
       \<and> analyze_and_fix_error E last_error component d = (Inr (True, fix_message), d_fixed)
       \<and> func d_fixed = (Inr (False, last_error), d_failed)
      \<longrightarrow> retry_loop E component func max_attempts attempt last_error errors_seen d
            = Some (Inr (False, ''Failed to fix '' @ component @ '' after '' @ py_str max_attempts
                           @ '' attempts. Last error: '' @ last_error), d_failed))"
proof (intro conjI impI)
  assume "attempt \<le> max_attempts \<and> last_error \<in> errors_seen"
  then show "retry_loop E component func max_attempts attempt last_error errors_seen d
            = retry_loop E component func max_attempts (attempt + 1) last_error errors_seen d"
    by (simp add: retry_loop_seen)
next
  assume "last_error \<in> errors_seen"
  then show "retry_loop E component func max_attempts attempt last_error errors_seen d
            = Some (Inr (False, ''Failed to fix '' @ component @ '' after '' @ py_str max_attempts
                           @ '' attempts. Last error: '' @ last_error), d)"
    by (rule retry_loop_seen_fails)
next
  assume h: "attempt \<le> max_attempts \<and> last_error \<notin> errors_seen
       \<and> analyze_and_fix_error E last_error component d = (Inr (True, fix_message), d_fixed)
       \<and> func d_fixed = (Inr (False, last_error), d_failed)"
  then have "retry_loop E component func max_attempts attempt last_error errors_seen d
               = retry_loop E component func max_attempts attempt last_error
                   (insert last_error errors_seen) d_failed"
    by (simp add: retry_loop_new)
  also have "\<dots> = Some (Inr (False, ''Failed to fix '' @ component @ '' after '' @ py_str max_attempts
                           @ '' attempts. Last error: '' @ last_error), d_failed)"
    by (rule retry_loop_seen_fails) simp
  finally show "retry_loop E component func max_attempts attempt last_error errors_seen d
            = Some (Inr (False, ''Failed to fix '' @ component @ '' after '' @ py_str max_attempts
                           @ '' attempts. Last error: '' @ last_error), d_failed)" .
qed

text \<open>
  \<open>port_busy\<close> answers "Address already in use" again after the port was changed once:
  the session fails, and the ledger holds the one fix.
\<close>

theorem repeated_error_ends_the_session_witness:
  "map_option fst (retry_with_fixes calm ''Backend startup'' ''Address already in use'' ''backend''
                     port_busy 5 (init ''demo'' None))
     = Some (Inr (False, ''Failed to fix backend after 5 attempts. Last error: Address already in use''))
   \<and> map_option (fix_attempts \<circ> snd)
        (retry_with_fixes calm ''Backend startup'' ''Address already in use'' ''backend''
           port_busy 5 (init ''demo'' None))
     = Some (Some [(''backend'', [''Changed backend port to 5001'']), (''frontend'', []),
                   (''dependencies'', [])])"
proof -
  let ?d = "init ''demo'' None"
  let ?d1 = "snd (analyze_and_fix_error calm ''Address already in use'' ''backend'' ?d)"
  have p5001: "py_str 5001 = ''5001''"
    by (simp add: py_str_def str_nat.simps digit_char_def)
  have fixd: "analyze_and_fix_error calm ''Address already in use'' ''backend'' ?d
               = (Inr (True, ''Changed backend port to 5001''), ?d1)"
    by (simp add: analyze_and_fix_error_def fix_backend_error_def fix_backend_try_def
          finish_fix_def record_fix_def ensure_fix_attempts_def Let_def init_def py_str_samples p5001)
  have ledger: "fix_attempts ?d1
      = Some [(''backend'', [''Changed backend port to 5001'']), (''frontend'', []),
              (''dependencies'', [])]"
    by (simp add: analyze_and_fix_error_def fix_backend_error_def fix_backend_try_def
          finish_fix_def record_fix_def ensure_fix_attempts_def Let_def init_def py_str_samples p5001)
  have h: "(1::int) \<le> 5 \<and> ''Address already in use'' \<notin> ({} :: string set)
       \<and> analyze_and_fix_error calm ''Address already in use'' ''backend'' ?d
            = (Inr (True, ''Changed backend port to 5001''), ?d1)
       \<and> port_busy ?d1 = (Inr (False, ''Address already in use''), ?d1)"
    using fixd by (simp add: port_busy_def)
  have "retry_loop calm ''backend'' port_busy 5 1 ''Address already in use'' {} ?d
          = Some (Inr (False, ''Failed to fix '' @ ''backend'' @ '' after '' @ py_str 5
                           @ '' attempts. Last error: '' @ ''Address already in use''), ?d1)"
    by (rule mp [OF conjunct2 [OF conjunct2 [OF repeated_error_ends_the_session
         [where attempt = 1 and max_attempts = 5 and last_error = "''Address already in use''"
            and errors_seen = "{}" and E = calm and component = "''backend''"
            and func = port_busy and d = ?d and fix_message = "''Changed backend port to 5001''"
            and d_fixed = ?d1 and d_failed = ?d1]]] h])
  then show ?thesis
    by (simp add: retry_with_fixes_def ledger py_str_samples)
qed

lemma port_taken_fresh:
  assumes "port_taken_inv l s d"
  shows "l \<notin> s"
proof
  assume "l \<in> s"
  with assms obtain p where p: "0 \<le> p" "p < backend_port d"
    and lp: "l = ''Address already in use: http://localhost:'' @ py_str p"
    unfolding port_taken_inv_def by blast
  from assms have "l = ''Address already in use: http://localhost:'' @ py_str (backend_port d)"
    unfolding port_taken_inv_def by simp
  with lp have "py_str (backend_port d) = py_str p" by simp
  moreover from assms have "0 \<le> backend_port d" unfolding port_taken_inv_def by simp
  ultimately have "backend_port d = p" using p(1) by (intro py_str_inj)
  with p(2) show False by simp
qed

lemma port_taken_matches:
  assumes "port_taken_inv l s d"
  shows "\<not> py_in ''ModuleNotFoundError'' l" and "py_in ''Address already in use'' l"
proof -
  from assms have l: "l = ''Address already in use: http://localhost:'' @ py_str (backend_port d)"
    and nn: "0 \<le> backend_port d"
    unfolding port_taken_inv_def by simp_all
  from py_str_no_M [OF nn] show "\<not> py_in ''ModuleNotFoundError'' l"
    unfolding l by simp
  show "py_in ''Address already in use'' l"
    unfolding l by simp
qed

lemma port_taken_step:
  assumes inv: "port_taken_inv l s d"
  shows "\<exists>m d1. analyze_and_fix_error E l ''backend'' d = (Inr (True, m), d1)
           \<and> port_taken_inv (''Address already in use: '' @ backend_url d1) (insert l s) d1"
proof -
  from inv have led: "case fix_attempts d of None \<Rightarrow> True | Some fa \<Rightarrow> ''backend'' \<in> fst ` set fa"
    and nn: "0 \<le> backend_port d"
    and l: "l = ''Address already in use: http://localhost:'' @ py_str (backend_port d)"
    and earlier: "\<forall>e\<in>s. \<exists>p. 0 \<le> p \<and> p < backend_port d
                   \<and> e = ''Address already in use: http://localhost:'' @ py_str p"
    unfolding port_taken_inv_def by simp_all
  from fix_port_in_use [OF port_taken_matches [OF inv] led, of E] obtain d1 where
    fixd: "analyze_and_fix_error E l ''backend'' d
            = (Inr (True, ''Changed backend port to '' @ py_str (backend_port d + 1)), d1)"
    and port: "backend_port d1 = backend_port d + 1"
    and url: "backend_url d1 = ''http://localhost:'' @ py_str (backend_port d + 1)"
    and ledger: "case fix_attempts d1 of None \<Rightarrow> True | Some fa \<Rightarrow> ''backend'' \<in> fst ` set fa"
    by (elim exE conjE)
  have seen: "\<exists>p. 0 \<le> p \<and> p < backend_port d1
                 \<and> e = ''Address already in use: http://localhost:'' @ py_str p"
    if "e \<in> insert l s" for e
  proof (cases "e = l")
    case True
    with l nn port show ?thesis by (intro exI [of _ "backend_port d"]) simp
  next
    case False
    with that have "e \<in> s" by simp
    from bspec [OF earlier this] obtain p where "0 \<le> p" "p < backend_port d"
      "e = ''Address already in use: http://localhost:'' @ py_str p" by (elim exE conjE)
    with port show ?thesis by (intro exI [of _ p]) simp
  qed
  have "port_taken_inv (''Address already in use: '' @ backend_url d1) (insert l s) d1"
    unfolding port_taken_inv_def
  proof (intro conjI ballI)
    show "0 \<le> backend_port d1" using nn port by simp
    show "backend_url d1 = ''http://localhost:'' @ py_str (backend_port d1)"
      using url port by simp
    show "''Address already in use: '' @ backend_url d1 = ''Address already in use: '' @ backend_url d1"
      by (rule refl)
    show "case fix_attempts d1 of None \<Rightarrow> True | Some fa \<Rightarrow> ''backend'' \<in> fst ` set fa"
      by (rule ledger)
  next
    fix e assume "e \<in> insert l s"
    then show "\<exists>p. 0 \<le> p \<and> p < backend_port d1
                 \<and> e = ''Address already in use: http://localhost:'' @ py_str p"
      by (rule seen)
  qed
  with fixd show ?thesis by (intro exI conjI)
qed

lemma retry_loop_port_always_taken:
  assumes "retry_loop E c f m a l s d = Some y"
  shows "\<not> (c = ''backend'' \<and> f = port_always_taken \<and> a \<le> m \<and> port_taken_inv l s d)"
proof (rule retry_loop.raw_induct
    [where P = "\<lambda>E c f m a l s d y.
                  \<not> (c = ''backend'' \<and> f = port_always_taken \<and> a \<le> m \<and> port_taken_inv l s d)",
     OF _ assms], goal_cases)
  case (1 rl E c f m a l s d y)
  show ?case
  proof
    assume h: "c = ''backend'' \<and> f = port_always_taken \<and> a \<le> m \<and> port_taken_inv l s d"
    then have c: "c = ''backend''" and f: "f = port_always_taken" and le: "a \<le> m"
      and inv: "port_taken_inv l s d" by simp_all
    from port_taken_step [OF inv, of E] obtain msg d1 where
      fixd: "analyze_and_fix_error E l ''backend'' d = (Inr (True, msg), d1)"
      and inv1: "port_taken_inv (''Address already in use: '' @ backend_url d1) (insert l s) d1"
      by (elim exE conjE)
    have op: "port_always_taken d1 = (Inr (False, ''Address already in use: '' @ backend_url d1), d1)"
      by (simp add: port_always_taken_def)
    from 1(2) have "rl E ''backend'' port_always_taken m a
                      (''Address already in use: '' @ backend_url d1) (insert l s) d1 = Some y"
      unfolding c f by (simp only: le port_taken_fresh [OF inv] fixd op if_True if_False
                            prod.case sum.case)
    from 1(1) [OF this] inv1 le show False by simp
  qed
qed

text \<open>
  C1 asks that the loop always ends, after at most \<open>max_attempts\<close> iterations. The
  code does not: \<open>attempt\<close> is incremented when the error was seen before and when no
  fix applies, but not when a fix was applied and the retried operation failed with a
  new message. With \<open>max_attempts = 5\<close>, the backend component and the operation
  \<open>port_always_taken\<close>, which fails on every call with an error not seen before,
  every error is fixable (the port is moved each time), and the loop never returns, on
  any machine.
\<close>

theorem retry_never_ends_on_fresh_fixable_errors:
  "retry_with_fixes E ''Backend startup''
     (''Address already in use: '' @ backend_url (init dir port_var))
     ''backend'' port_always_taken 5 (init dir port_var) = None"
proof (cases "retry_with_fixes E ''Backend startup''
     (''Address already in use: '' @ backend_url (init dir port_var))
     ''backend'' port_always_taken 5 (init dir port_var)")
  case None
  then show ?thesis .
next
  case (Some y)
  then have run: "retry_loop E ''backend'' port_always_taken 5 1
               (''Address already in use: '' @ backend_url (init dir port_var)) {}
               (init dir port_var) = Some y"
    by (simp add: retry_with_fixes_def)
  have "port_taken_inv (''Address already in use: '' @ backend_url (init dir port_var)) {}
          (init dir port_var)"
    by (simp add: port_taken_inv_def init_def)
  with retry_loop_port_always_taken [OF run] show ?thesis by simp
qed

subsection \<open>What the readiness loops do between probes\<close>

lemma poll_ready_events:
  "\<exists>evs. events (snd (poll_ready E url n d)) = events d @ evs
         \<and> sleeps_after_refusals evs \<and> list_all is_probe_event evs"
proof (induction n arbitrary: d)
  case 0
  show ?case by simp
next
  case (Suc n)
  let ?r = "http_at E (tick d) GET url"
  let ?d1 = "snd (requests_call E GET url d)"
  have e1: "events ?d1 = events d @ [Http GET url None ?r]"
    by (simp add: requests_call_def Let_def)
  show ?case
  proof (cases ?r)
    case (Inr code)
    show ?thesis
    proof (cases "code = 200")
      case True
      with Inr show ?thesis by (simp add: requests_call_def Let_def)
    next
      case False
      from Suc [of ?d1] obtain evs where
        "events (snd (poll_ready E url n ?d1)) = events ?d1 @ evs"
        "sleeps_after_refusals evs" "list_all is_probe_event evs" by (elim exE conjE)
      with Inr False e1 show ?thesis
        by (intro exI [of _ "Http GET url None (Inr code) # evs"])
           (simp add: requests_call_def Let_def)
    qed
  next
    case (Inl e)
    show ?thesis
    proof (cases "exn_class_of e = RequestException")
      case False
      with Inl show ?thesis by (simp add: requests_call_def Let_def)
    next
      case True
      let ?d2 = "time_sleep 1 ?d1"
      have e2: "events ?d2 = events d @ [Http GET url None (Inl e), Sleep 1]"
        using Inl by (simp add: requests_call_def Let_def time_sleep_def)
      from Suc [of ?d2] obtain evs where
        "events (snd (poll_ready E url n ?d2)) = events ?d2 @ evs"
        "sleeps_after_refusals evs" "list_all is_probe_event evs" by (elim exE conjE)
      with Inl True e2 show ?thesis
        by (intro exI [of _ "Http GET url None (Inl e) # Sleep 1 # evs"])
           (simp add: requests_call_def Let_def)
    qed
  qed
qed

lemma poll_ready_fields:
  "project_dir (snd (poll_ready E url n d)) = project_dir d"
  "backend_process (snd (poll_ready E url n d)) = backend_process d"
  "frontend_process (snd (poll_ready E url n d)) = frontend_process d"
  "backend_port (snd (poll_ready E url n d)) = backend_port d"
  "frontend_port (snd (poll_ready E url n d)) = frontend_port d"
  "backend_url (snd (poll_ready E url n d)) = backend_url d"
  "frontend_url (snd (poll_ready E url n d)) = frontend_url d"
  "fix_attempts (snd (poll_ready E url n d)) = fix_attempts d"
  "environ_port (snd (poll_ready E url n d)) = environ_port d"
  by (induction n arbitrary: d;
      simp add: requests_call_def Let_def time_sleep_def split: sum.splits)+

lemma snd_start_backend:
  "snd (start_backend E d) = snd (start_backend_try E d)"
  by (simp add: start_backend_def split: prod.splits sum.splits)

lemma snd_start_frontend:
  "snd (start_frontend E d) = snd (start_frontend_try E d)"
  by (simp add: start_frontend_def split: prod.splits sum.splits)

lemma snd_poll_result:
  "snd (case poll_ready E url n d of
          (Inl e, d3) \<Rightarrow> (Inl e, d3)
        | (Inr True, d3) \<Rightarrow> (Inr a, d3)
        | (Inr False, d3) \<Rightarrow> (Inr b, d3)) = snd (poll_ready E url n d)"
  by (simp split: prod.splits sum.splits bool.splits)

lemma start_backend_events:
  "\<exists>evs. events (snd (start_backend E d))
           = events d @
             Popen [executable E, ''-m'', ''flask'', ''run''] (path_join (project_dir d) ''backend'')
               [(''FLASK_APP'', ''app''), (''FLASK_ENV'', ''development'')]
               (popen_at E (tick d) [executable E, ''-m'', ''flask'', ''run'']
                  (path_join (project_dir d) ''backend'')) # evs
         \<and> list_all is_probe_event evs \<and> sleeps_after_refusals evs"
proof (cases "popen_at E (tick d) [executable E, ''-m'', ''flask'', ''run'']
                (path_join (project_dir d) ''backend'')")
  case (Inl e)
  then show ?thesis
    by (simp add: snd_start_backend start_backend_try_def subprocess_Popen_def Let_def)
next
  case (Inr pid)
  let ?d2 = "(snd (subprocess_Popen E [executable E, ''-m'', ''flask'', ''run'']
                (path_join (project_dir d) ''backend'')
                [(''FLASK_APP'', ''app''), (''FLASK_ENV'', ''development'')] d))\<lparr>backend_process := Some pid\<rparr>"
  from poll_ready_events [of E "backend_url ?d2 @ ''/health''" 30 ?d2] obtain evs where
    "events (snd (poll_ready E (backend_url ?d2 @ ''/health'') 30 ?d2)) = events ?d2 @ evs"
    "sleeps_after_refusals evs" "list_all is_probe_event evs" by (elim exE conjE)
  with Inr show ?thesis
    by (intro exI [of _ evs])
       (simp add: snd_start_backend start_backend_try_def subprocess_Popen_def Let_def
          snd_poll_result)
qed

lemma start_frontend_events:
  "\<exists>evs. events (snd (start_frontend E d))
           = events d @
             Popen [''npm'', ''start''] (path_join (project_dir d) ''frontend'')
               [(''PORT'', case environ_port d of Some v \<Rightarrow> v | None \<Rightarrow> py_str (frontend_port d))]
               (popen_at E (tick d) [''npm'', ''start''] (path_join (project_dir d) ''frontend'')) # evs
         \<and> list_all is_probe_event evs \<and> sleeps_after_refusals evs"
proof (cases "popen_at E (tick d) [''npm'', ''start''] (path_join (project_dir d) ''frontend'')")
  case (Inl e)
  then show ?thesis
    by (simp add: snd_start_frontend start_frontend_try_def subprocess_Popen_def Let_def)
next
  case (Inr pid)
  let ?d2 = "(snd (subprocess_Popen E [''npm'', ''start''] (path_join (project_dir d) ''frontend'')
                [(''PORT'', case environ_port d of Some v \<Rightarrow> v | None \<Rightarrow> py_str (frontend_port d))] d))\<lparr>frontend_process := Some pid\<rparr>"
  from poll_ready_events [of E "frontend_url ?d2" 60 ?d2] obtain evs where
    "events (snd (poll_ready E (frontend_url ?d2) 60 ?d2)) = events ?d2 @ evs"
    "sleeps_after_refusals evs" "list_all is_probe_event evs" by (elim exE conjE)
  with Inr show ?thesis
    by (intro exI [of _ evs])
       (simp add: snd_start_frontend start_frontend_try_def subprocess_Popen_def Let_def
          snd_poll_result)
qed

text \<open>
  C7, as the code has it. After the \<open>Popen\<close> call, a start method issues only GET
  requests without a \<open>timeout=\<close> argument and one-second sleeps, and every request
  that raises a \<open>RequestException\<close> is directly followed by the sleep. Nothing is said
  here about a request answered with a status other than 200.
\<close>

theorem probes_sleep_after_refusals_without_timeout:
  "(\<exists>evs. events (snd (start_backend E d))
           = events d @
             Popen [executable E, ''-m'', ''flask'', ''run''] (path_join (project_dir d) ''backend'')
               [(''FLASK_APP'', ''app''), (''FLASK_ENV'', ''development'')]
               (popen_at E (tick d) [executable E, ''-m'', ''flask'', ''run'']
                  (path_join (project_dir d) ''backend'')) # evs
         \<and> list_all is_probe_event evs \<and> sleeps_after_refusals evs)
   \<and> (\<exists>evs. events (snd (start_frontend E d))
           = events d @
             Popen [''npm'', ''start''] (path_join (project_dir d) ''frontend'')
               [(''PORT'', case environ_port d of Some v \<Rightarrow> v | None \<Rightarrow> py_str (frontend_port d))]
               (popen_at E (tick d) [''npm'', ''start''] (path_join (project_dir d) ''frontend'')) # evs
         \<and> list_all is_probe_event evs \<and> sleeps_after_refusals evs)"
  using start_backend_events [of E d] start_frontend_events [of E d] by (intro conjI)

theorem probes_sleep_after_refusals_without_timeout_witness:
  "(\<exists>evs. events (snd (start_backend never_up (init ''demo'' None)))
           = Popen [''python3'', ''-m'', ''flask'', ''run''] ''demo/backend''
               [(''FLASK_APP'', ''app''), (''FLASK_ENV'', ''development'')] (Inr 100) # evs
         \<and> list_all is_probe_event evs \<and> sleeps_after_refusals evs)"
  using conjunct1 [OF probes_sleep_after_refusals_without_timeout [of never_up "init ''demo'' None"]]
  by (simp add: never_up_def calm_def init_def path_join_def)

lemma poll_ready_same_status:
  assumes "\<forall>t. http_at E t GET url = Inr code" and "code \<noteq> 200"
  shows "events (snd (poll_ready E url n d)) = events d @ replicate n (Http GET url None (Inr code))"
  using assms
proof (induction n arbitrary: d)
  case 0
  show ?case by simp
next
  case (Suc n)
  from Suc.prems Suc.IH [of "snd (requests_call E GET url d)"] show ?case
    by (simp add: requests_call_def Let_def replicate_append_same)
qed

text \<open>
  C7 as stated fails on \<open>busy_backend\<close>, where every probe is answered with status 503:
  the backend start issues its 30 requests back to back, with no sleep between them, and
  none of them carries a timeout.
\<close>

theorem sleep_between_probes_counterexample:
  "\<not> sleep_between_probes (events (snd (start_backend busy_backend (init ''demo'' None))))
   \<and> \<not> requests_have_timeout (events (snd (start_backend busy_backend (init ''demo'' None))))"
proof -
  let ?url = "''http://localhost:5000/health''"
  have "events (snd (start_backend busy_backend (init ''demo'' None)))
          = Popen [''python3'', ''-m'', ''flask'', ''run''] ''demo/backend''
               [(''FLASK_APP'', ''app''), (''FLASK_ENV'', ''development'')] (Inr 100)
            # replicate 30 (Http GET ?url None (Inr 503))"
    using poll_ready_same_status [of busy_backend ?url 503 30]
    by (simp add: snd_start_backend start_backend_try_def subprocess_Popen_def Let_def
          snd_poll_result busy_backend_def calm_def init_def path_join_def py_str_samples)
  then show ?thesis
    by (simp add: sleep_between_probes_def requests_have_timeout_def numeral_eq_Suc)
qed

subsection \<open>A port conflict of the frontend\<close>

lemma py_in_append: "py_in sub (ps @ sub @ ss)"
proof (induction ps)
  case Nil
  show ?case
  proof (cases "sub @ ss")
    case Nil
    then show ?thesis by simp
  next
    case (Cons a rest)
    then have "prefix sub (a # rest)" by (metis prefixI)
    with Cons show ?thesis by simp
  qed
next
  case (Cons p ps)
  then show ?case by simp
qed

lemma join_lines_member:
  "y \<in> set ys \<Longrightarrow> \<exists>ps ss. join_lines ys = ps @ y @ ss"
proof (induction ys rule: join_lines.induct)
  case 1
  then show ?case by simp
next
  case (2 x)
  then show ?case by (intro exI [of _ "[]"]) simp
next
  case (3 x z zs)
  show ?case
  proof (cases "y = x")
    case True
    then show ?thesis by (intro exI [of _ "[]"] exI [of _ "nl @ join_lines (z # zs)"]) simp
  next
    case False
    with 3 obtain ps ss where "join_lines (z # zs) = ps @ y @ ss" by auto
    then show ?thesis by (intro exI [of _ "x @ nl @ ps"] exI [of _ ss]) simp
  qed
qed

lemma report_names_frontend_url:
  "py_in (''- Frontend: '' @ frontend_url d) (generate_demo_report api_results d)"
proof -
  have "\<exists>ps ss. generate_demo_report api_results d = ps @ (''- Frontend: '' @ frontend_url d) @ ss"
    unfolding generate_demo_report_def by (rule join_lines_member) simp
  then obtain ps ss where
    "generate_demo_report api_results d = ps @ (''- Frontend: '' @ frontend_url d) @ ss" by blast
  then show ?thesis using py_in_append [of "''- Frontend: '' @ frontend_url d" ps ss] by simp
qed

lemma fix_frontend_port_in_use:
  assumes "py_in ''EADDRINUSE'' err" and "\<not> py_in ''react-scripts'' err"
    and "\<not> (py_in ''ENOENT'' err \<and> py_in ''package.json'' err)"
    and "case fix_attempts d of None \<Rightarrow> True | Some fa \<Rightarrow> ''frontend'' \<in> fst ` set fa"
  shows "\<exists>d'. analyze_and_fix_error E err ''frontend'' d
            = (Inr (True, ''Changed frontend port to '' @ py_str (frontend_port d + 1)), d')
          \<and> frontend_port d' = frontend_port d + 1
          \<and> frontend_url d' = ''http://localhost:'' @ py_str (frontend_port d + 1)
          \<and> environ_port d' = Some (py_str (frontend_port d + 1))
          \<and> project_dir d' = project_dir d
          \<and> events d' = events d \<and> tick d' = tick d"
proof -
  let ?d0 = "ensure_fix_attempts d"
  let ?d3 = "?d0\<lparr>frontend_port := frontend_port d + 1,
                environ_port := Some (py_str (frontend_port d + 1)),
                frontend_url := ''http://localhost:'' @ py_str (frontend_port d + 1)\<rparr>"
  let ?msg = "''Changed frontend port to '' @ py_str (frontend_port d + 1)"
  obtain fa where fa: "fix_attempts ?d3 = Some fa" and key: "''frontend'' \<in> fst ` set fa"
    using assms(4) by (auto simp: ensure_fix_attempts_def split: option.splits)
  from record_fix_ok [OF fa key, of ?msg] obtain fa' where
    rec: "record_fix ''frontend'' ?msg ?d3 = (Inr (), ?d3\<lparr>fix_attempts := Some fa'\<rparr>)"
    by blast
  have nm: "(py_in ''ENOENT'' err \<and> py_in ''package.json'' err) = False"
    using assms(3) by simp
  have "fix_frontend_try E err ?d0 = (Inr (True, ?msg), ?d3\<lparr>fix_attempts := Some fa'\<rparr>)"
    using assms(1,2) rec by (simp add: fix_frontend_try_def finish_fix_def Let_def nm)
  then have "analyze_and_fix_error E err ''frontend'' d
               = (Inr (True, ?msg), ?d3\<lparr>fix_attempts := Some fa'\<rparr>)"
    by (simp add: analyze_and_fix_error_def fix_frontend_error_def)
  then show ?thesis by simp
qed

lemma start_frontend_first_probe:
  assumes "popen_at E (tick d) [''npm'', ''start''] (path_join (project_dir d) ''frontend'') = Inr pid"
    and "http_at E (tick d + 1) GET (frontend_url d) = Inr 200"
  shows "\<exists>d'. start_frontend E d = (Inr (True, ''Frontend started successfully''), d')
          \<and> frontend_port d' = frontend_port d \<and> frontend_url d' = frontend_url d
          \<and> events d' = events d @
               [Popen [''npm'', ''start''] (path_join (project_dir d) ''frontend'')
                  [(''PORT'', case environ_port d of Some v \<Rightarrow> v | None \<Rightarrow> py_str (frontend_port d))]
                  (Inr pid),
                Http GET (frontend_url d) None (Inr 200)]"
  using assms
  by (simp add: start_frontend_def start_frontend_try_def subprocess_Popen_def Let_def
        requests_call_def numeral_eq_Suc)

text \<open>
  C4, as the code has it. The frontend fixer recognises a port conflict by the text
  \<open>EADDRINUSE\<close>. For an error string that contains it (and passes neither of the two
  earlier tests), with the frontend port at 3000: the port becomes 3001, the retried
  start launches \<open>npm start\<close> with \<open>PORT=3001\<close> and probes
  \<open>http://localhost:3001\<close>; when that probe is answered with 200 the stage succeeds,
  and a report generated afterwards names \<open>http://localhost:3001\<close> as the frontend URL.
\<close>

theorem frontend_port_conflict_is_fixed:
  assumes "py_in ''EADDRINUSE'' err" and "\<not> py_in ''react-scripts'' err"
    and "\<not> (py_in ''ENOENT'' err \<and> py_in ''package.json'' err)"
    and "frontend_port d = 3000"
    and "case fix_attempts d of None \<Rightarrow> True | Some fa \<Rightarrow> ''frontend'' \<in> fst ` set fa"
    and "popen_at E (tick d) [''npm'', ''start''] (path_join (project_dir d) ''frontend'') = Inr pid"
    and "http_at E (tick d + 1) GET ''http://localhost:3001'' = Inr 200"
  shows "\<exists>d'. retry_with_fixes E operation err ''frontend'' (start_frontend E) 5 d
              = Some (Inr (True, ''Frontend started successfully''), d')
          \<and> frontend_port d' = 3001 \<and> frontend_url d' = ''http://localhost:3001''
          \<and> events d' = events d @
               [Popen [''npm'', ''start''] (path_join (project_dir d) ''frontend'')
                  [(''PORT'', ''3001'')] (Inr pid),
                Http GET ''http://localhost:3001'' None (Inr 200)]
          \<and> (\<forall>api_results. py_in ''- Frontend: http://localhost:3001''
                               (generate_demo_report api_results d'))"
proof -
  from fix_frontend_port_in_use [OF assms(1,2,3,5), of E] assms(4) obtain d1 where
    fixd: "analyze_and_fix_error E err ''frontend'' d
             = (Inr (True, ''Changed frontend port to '' @ py_str (3000 + 1)), d1)"
    and port: "frontend_port d1 = 3001"
    and url: "frontend_url d1 = ''http://localhost:3001''"
    and var: "environ_port d1 = Some ''3001''"
    and dir: "project_dir d1 = project_dir d"
    and same: "events d1 = events d" "tick d1 = tick d"
    by (auto simp: py_str_samples)
  from start_frontend_first_probe [of E d1 pid] assms(6,7) obtain d' where
    start: "start_frontend E d1 = (Inr (True, ''Frontend started successfully''), d')"
    and port': "frontend_port d' = 3001" and url': "frontend_url d' = ''http://localhost:3001''"
    and evs: "events d' = events d @
               [Popen [''npm'', ''start''] (path_join (project_dir d) ''frontend'')
                  [(''PORT'', ''3001'')] (Inr pid),
                Http GET ''http://localhost:3001'' None (Inr 200)]"
    by (auto simp: port url var dir same)
  have "retry_with_fixes E operation err ''frontend'' (start_frontend E) 5 d
          = Some (Inr (True, ''Frontend started successfully''), d')"
    by (simp add: retry_with_fixes_def retry_loop_new fixd start)
  moreover have "py_in ''- Frontend: http://localhost:3001'' (generate_demo_report api_results d')"
    for api_results
    using report_names_frontend_url [of d' api_results] by (simp add: url')
  ultimately show ?thesis using port' url' evs by (intro exI [of _ d']) simp
qed

theorem frontend_port_conflict_is_fixed_witness:
  "map_option fst (retry_with_fixes calm ''Frontend startup'' node_port_error ''frontend''
                     (start_frontend calm) 5 (init ''demo'' None))
     = Some (Inr (True, ''Frontend started successfully''))
   \<and> map_option (frontend_url \<circ> snd)
        (retry_with_fixes calm ''Frontend startup'' node_port_error ''frontend''
           (start_frontend calm) 5 (init ''demo'' None))
     = Some ''http://localhost:3001''"
proof -
  let ?d = "init ''demo'' None"
  have a: "py_in ''EADDRINUSE'' node_port_error" "\<not> py_in ''react-scripts'' node_port_error"
    "\<not> (py_in ''ENOENT'' node_port_error \<and> py_in ''package.json'' node_port_error)"
    by (simp_all add: node_port_error_def)
  have b: "frontend_port ?d = 3000"
    "case fix_attempts ?d of None \<Rightarrow> True | Some fa \<Rightarrow> ''frontend'' \<in> fst ` set fa"
    "popen_at calm (tick ?d) [''npm'', ''start''] (path_join (project_dir ?d) ''frontend'') = Inr 200"
    "http_at calm (tick ?d + 1) GET ''http://localhost:3001'' = Inr 200"
    by (simp_all add: init_def calm_def)
  from frontend_port_conflict_is_fixed [OF a b, of "''Frontend startup''"]
  obtain d' where "retry_with_fixes calm ''Frontend startup'' node_port_error ''frontend''
                     (start_frontend calm) 5 ?d
                   = Some (Inr (True, ''Frontend started successfully''), d')"
    and "frontend_url d' = ''http://localhost:3001''" by (elim exE conjE)
  then show ?thesis by simp
qed

text \<open>
  C4 as stated fails: the string "Address already in use" passes none of the frontend
  tests, so nothing is fixed and the port stays at 3000.
\<close>

theorem frontend_port_conflict_counterexample:
  "fst (analyze_and_fix_error calm ''Address already in use'' ''frontend'' (init ''demo'' None))
     = Inr (False, ''Unable to automatically fix this frontend error'')
   \<and> frontend_port (snd (analyze_and_fix_error calm ''Address already in use'' ''frontend''
                            (init ''demo'' None))) = 3000
   \<and> frontend_url (snd (analyze_and_fix_error calm ''Address already in use'' ''frontend''
                           (init ''demo'' None))) = ''http://localhost:3000''"
  by (simp add: analyze_and_fix_error_def fix_frontend_error_def fix_frontend_try_def
        finish_fix_def ensure_fix_attempts_def init_def py_str_samples)

subsection \<open>Cleanup and the end of a demonstration\<close>

lemma terminate_each_fields:
  "backend_process (snd (terminate_each E cs d)) = backend_process d"
  "frontend_process (snd (terminate_each E cs d)) = frontend_process d"
  by (induction cs arbitrary: d; simp add: process_terminate_def split: option.splits)+

lemma terminate_each_events:
  "\<exists>ks. events (snd (terminate_each E cs d)) = events d @ map Terminate ks
        \<and> (fst (terminate_each E cs d) = Inr () \<longrightarrow> ks = cs)"
proof (induction cs arbitrary: d)
  case Nil
  show ?case by (intro exI [of _ "[]"]) simp
next
  case (Cons c cs)
  let ?d1 = "snd (process_terminate E c d)"
  have e1: "events ?d1 = events d @ [Terminate c]" by (simp add: process_terminate_def)
  show ?case
  proof (cases "terminate_at E (tick d) c")
    case (Some e)
    then show ?thesis by (intro exI [of _ "[c]"]) (simp add: process_terminate_def)
  next
    case None
    from Cons [of ?d1] obtain ks where
      "events (snd (terminate_each E cs ?d1)) = events ?d1 @ map Terminate ks"
      "fst (terminate_each E cs ?d1) = Inr () \<longrightarrow> ks = cs" by (elim exE conjE)
    with None e1 show ?thesis
      by (intro exI [of _ "c # ks"]) (simp add: process_terminate_def)
  qed
qed

lemma terminate_tree_events:
  "\<exists>evs. events (snd (terminate_tree E p d)) = events d @ evs
         \<and> backend_process (snd (terminate_tree E p d)) = backend_process d
         \<and> frontend_process (snd (terminate_tree E p d)) = frontend_process d
         \<and> list_all is_cleanup_event evs \<and> (\<forall>m. LogError m \<notin> set evs)
         \<and> (fst (terminate_tree E p d) = Inr ()
              \<longrightarrow> (\<exists>cs. evs = ChildrenOf p (Inr cs) # map Terminate cs @ [Terminate p]))"
proof (cases "children_at E (tick d) p")
  case (Inl e)
  then show ?thesis
    by (intro exI [of _ "[ChildrenOf p (Inl e)]"])
       (simp add: terminate_tree_def psutil_children_def Let_def)
next
  case (Inr cs)
  let ?d1 = "snd (psutil_children E p d)"
  have e1: "events ?d1 = events d @ [ChildrenOf p (Inr cs)]"
    using Inr by (simp add: psutil_children_def Let_def)
  from terminate_each_events [of E cs ?d1] obtain ks where
    ks: "events (snd (terminate_each E cs ?d1)) = events ?d1 @ map Terminate ks"
    and all: "fst (terminate_each E cs ?d1) = Inr () \<longrightarrow> ks = cs" by (elim exE conjE)
  obtain r d2 where te: "terminate_each E cs ?d1 = (r, d2)" by (cases "terminate_each E cs ?d1")
  have tree: "terminate_tree E p d =
      (case r of Inl e \<Rightarrow> (Inl e, d2)
       | Inr u \<Rightarrow> (case process_terminate E p d2 of
                     (Some e, d3) \<Rightarrow> (Inl e, d3) | (None, d3) \<Rightarrow> (Inr (), d3)))"
    using Inr te by (simp add: terminate_tree_def psutil_children_def Let_def split: sum.splits)
  have cl: "list_all is_cleanup_event (map Terminate ks)" "\<forall>m. LogError m \<notin> set (map Terminate ks)"
    by (auto simp: list_all_iff)
  have fl: "backend_process d2 = backend_process d" "frontend_process d2 = frontend_process d"
    using terminate_each_fields [of E cs ?d1] te by (simp_all add: psutil_children_def Let_def)
  show ?thesis
  proof (cases r)
    case (Inl e)
    with tree te ks e1 cl fl show ?thesis
      by (intro exI [of _ "ChildrenOf p (Inr cs) # map Terminate ks"]) simp
  next
    case (Inr u)
    with all te have "ks = cs" by simp
    with Inr tree te ks e1 cl fl show ?thesis
      by (intro exI [of _ "ChildrenOf p (Inr cs) # map Terminate cs @ [Terminate p]"])
         (auto simp: process_terminate_def split: option.splits)
  qed
qed

lemma cleanup_side:
  fixes h :: "nat option"
  assumes "(case h of None \<Rightarrow> (Inr (), d) | Some pid \<Rightarrow> terminate_tree E pid d) = (r, d1)"
  shows "\<exists>evs. events d1 = events d @ evs
         \<and> backend_process d1 = backend_process d \<and> frontend_process d1 = frontend_process d
         \<and> list_all is_cleanup_event evs \<and> (\<forall>m. LogError m \<notin> set evs)
         \<and> (r = Inr () \<longrightarrow>
              (case h of None \<Rightarrow> evs = []
               | Some p \<Rightarrow> \<exists>cs. evs = ChildrenOf p (Inr cs) # map Terminate cs @ [Terminate p]))"
proof (cases h)
  case None
  with assms show ?thesis by (intro exI [of _ "[]"]) auto
next
  case (Some p)
  with assms have t: "terminate_tree E p d = (r, d1)" by simp
  from terminate_tree_events [of E p d] obtain evs where
    "events (snd (terminate_tree E p d)) = events d @ evs"
    "backend_process (snd (terminate_tree E p d)) = backend_process d"
    "frontend_process (snd (terminate_tree E p d)) = frontend_process d"
    "list_all is_cleanup_event evs" "\<forall>m. LogError m \<notin> set evs"
    "fst (terminate_tree E p d) = Inr ()
       \<longrightarrow> (\<exists>cs. evs = ChildrenOf p (Inr cs) # map Terminate cs @ [Terminate p])"
    by (elim exE conjE)
  with t Some show ?thesis by (intro exI [of _ evs]) simp
qed

lemma cleanup_result:
  "\<exists>evs. events (cleanup E d) = events d @ evs
     \<and> backend_process (cleanup E d) = backend_process d
     \<and> frontend_process (cleanup E d) = frontend_process d
     \<and> list_all is_cleanup_event evs
     \<and> ((\<forall>m. LogError m \<notin> set evs) \<longrightarrow>
          (\<forall>p. backend_process d = Some p \<or> frontend_process d = Some p
                \<longrightarrow> Terminate p \<in> set evs \<and> (\<exists>cs. ChildrenOf p (Inr cs) \<in> set evs))
          \<and> (\<forall>p cs c. ChildrenOf p (Inr cs) \<in> set evs \<and> c \<in> set cs \<longrightarrow> Terminate c \<in> set evs))"
proof -
  obtain r1 d1 where
    b: "(case backend_process d of None \<Rightarrow> (Inr (), d) | Some pid \<Rightarrow> terminate_tree E pid d) = (r1, d1)"
    by (cases "case backend_process d of None \<Rightarrow> (Inr (), d) | Some pid \<Rightarrow> terminate_tree E pid d")
  from cleanup_side [OF b] obtain evs1 where
    e1: "events d1 = events d @ evs1"
    and h1: "backend_process d1 = backend_process d" "frontend_process d1 = frontend_process d"
    and c1: "list_all is_cleanup_event evs1" and n1: "\<forall>m. LogError m \<notin> set evs1"
    and g1: "r1 = Inr () \<longrightarrow>
              (case backend_process d of None \<Rightarrow> evs1 = []
               | Some p \<Rightarrow> \<exists>cs. evs1 = ChildrenOf p (Inr cs) # map Terminate cs @ [Terminate p])"
    by (elim exE conjE)
  show ?thesis
  proof (cases r1)
    case (Inl e)
    with b have "cleanup E d = logger_error (''Error during cleanup: '' @ exn_str e) d1"
      by (simp add: cleanup_def cleanup_try_def)
    with e1 h1 c1 show ?thesis
      by (intro exI [of _ "evs1 @ [LogError (''Error during cleanup: '' @ exn_str e)]"])
         (auto simp: logger_error_def)
  next
    case (Inr u)
    obtain r2 d2 where
      f: "(case frontend_process d1 of None \<Rightarrow> (Inr (), d1) | Some pid \<Rightarrow> terminate_tree E pid d1) = (r2, d2)"
      by (cases "case frontend_process d1 of None \<Rightarrow> (Inr (), d1) | Some pid \<Rightarrow> terminate_tree E pid d1")
    from cleanup_side [OF f] obtain evs2 where
      e2: "events d2 = events d1 @ evs2"
      and h2: "backend_process d2 = backend_process d1" "frontend_process d2 = frontend_process d1"
      and c2: "list_all is_cleanup_event evs2" and n2: "\<forall>m. LogError m \<notin> set evs2"
      and g2: "r2 = Inr () \<longrightarrow>
                (case frontend_process d1 of None \<Rightarrow> evs2 = []
                 | Some p \<Rightarrow> \<exists>cs. evs2 = ChildrenOf p (Inr cs) # map Terminate cs @ [Terminate p])"
      by (elim exE conjE)
    from Inr b f have tried: "cleanup_try E d = (r2, d2)" by (simp add: cleanup_try_def)
    show ?thesis
    proof (cases r2)
      case (Inl e)
      with tried have "cleanup E d = logger_error (''Error during cleanup: '' @ exn_str e) d2"
        by (simp add: cleanup_def)
      with e1 e2 h1 h2 c1 c2 show ?thesis
        by (intro exI [of _ "evs1 @ evs2 @ [LogError (''Error during cleanup: '' @ exn_str e)]"])
           (auto simp: logger_error_def)
    next
      case r2: (Inr u2)
      with tried have cl: "cleanup E d = d2" by (simp add: cleanup_def)
      from g1 Inr have b1: "case backend_process d of None \<Rightarrow> evs1 = []
               | Some p \<Rightarrow> \<exists>cs. evs1 = ChildrenOf p (Inr cs) # map Terminate cs @ [Terminate p]"
        by simp
      from g2 r2 h1 have b2: "case frontend_process d of None \<Rightarrow> evs2 = []
               | Some p \<Rightarrow> \<exists>cs. evs2 = ChildrenOf p (Inr cs) # map Terminate cs @ [Terminate p]"
        by simp
      have own: "Terminate p \<in> set (evs1 @ evs2) \<and> (\<exists>cs. ChildrenOf p (Inr cs) \<in> set (evs1 @ evs2))"
        if "backend_process d = Some p \<or> frontend_process d = Some p" for p
        using that b1 b2 by (auto split: option.splits)
      have kids: "Terminate c \<in> set (evs1 @ evs2)"
        if "ChildrenOf p (Inr cs) \<in> set (evs1 @ evs2)" "c \<in> set cs" for p cs c
        using that b1 b2 by (auto split: option.splits)
      from cl e1 e2 h1 h2 c1 c2 own kids show ?thesis
        by (intro exI [of _ "evs1 @ evs2"]) (simp, blast)
    qed
  qed
qed

lemma retry_loop_failure_message:
  assumes "retry_loop E c f m a l s d = Some y"
  shows "\<forall>msg d'. y = (Inr (False, msg), d')
           \<longrightarrow> (\<exists>last. msg = ''Failed to fix '' @ c @ '' after '' @ py_str m
                                @ '' attempts. Last error: '' @ last)"
proof (rule retry_loop.raw_induct
    [where P = "\<lambda>E c f m a l s d y. \<forall>msg d'. y = (Inr (False, msg), d')
           \<longrightarrow> (\<exists>last. msg = ''Failed to fix '' @ c @ '' after '' @ py_str m
                                @ '' attempts. Last error: '' @ last)",
     OF _ assms], goal_cases)
  case (1 rl E c f m a l s d y)
  show ?case
  proof (cases "a \<le> m")
    case False
    with 1(2) show ?thesis by auto
  next
    case le: True
    show ?thesis
    proof (cases "l \<in> s")
      case True
      with le 1(2) have "rl E c f m (a + 1) l s d = Some y" by simp
      from 1(1) [OF this] show ?thesis .
    next
      case False
      obtain r d1 where an: "analyze_and_fix_error E l c d = (r, d1)"
        by (cases "analyze_and_fix_error E l c d")
      show ?thesis
      proof (cases r)
        case (Inl e)
        with le False an 1(2) show ?thesis by auto
      next
        case (Inr bm)
        obtain fixed fm where bm: "bm = (fixed, fm)" by (cases bm)
        show ?thesis
        proof (cases fixed)
          case no: False
          with le False an Inr bm 1(2) have "rl E c f m (a + 1) l (insert l s) d1 = Some y"
            by simp
          from 1(1) [OF this] show ?thesis .
        next
          case yes: True
          obtain r2 d2 where fn: "f d1 = (r2, d2)" by (cases "f d1")
          show ?thesis
          proof (cases r2)
            case (Inl e)
            with le False an Inr bm yes fn 1(2) show ?thesis by auto
          next
            case r2: (Inr sm)
            obtain success nm where sm: "sm = (success, nm)" by (cases sm)
            show ?thesis
            proof (cases success)
              case True
              with le False an Inr bm yes fn r2 sm 1(2) show ?thesis by auto
            next
              case False
              with le \<open>l \<notin> s\<close> an Inr bm yes fn r2 sm 1(2)
              have "rl E c f m a nm (insert l s) d2 = Some y" by simp
              from 1(1) [OF this] show ?thesis .
            qed
          qed
        qed
      qed
    qed
  qed
qed

lemma run_stage_failure_message:
  assumes "run_stage E operation c f d = Some (Inr (False, msg), d')"
  shows "\<exists>last. msg = ''Failed to fix '' @ c @ '' after 5 attempts. Last error: '' @ last"
proof -
  obtain r d1 where fn: "f d = (r, d1)" by (cases "f d")
  show ?thesis
  proof (cases r)
    case (Inl e)
    with fn assms show ?thesis by (simp add: run_stage_def)
  next
    case (Inr sm)
    obtain success m where sm: "sm = (success, m)" by (cases sm)
    show ?thesis
    proof (cases success)
      case True
      with fn Inr sm assms show ?thesis by (simp add: run_stage_def)
    next
      case False
      with fn Inr sm assms
      have "retry_loop E c f 5 1 m {} d1 = Some (Inr (False, msg), d')"
        by (simp add: run_stage_def retry_with_fixes_def)
      from retry_loop_failure_message [OF this] show ?thesis
        by (simp add: py_str_samples)
    qed
  qed
qed

lemma retry_unfixable:
  assumes "analyze_and_fix_error E err c d = (Inr (False, m), d1)" and "1 \<le> mx"
  shows "retry_with_fixes E operation err c f mx d
           = Some (Inr (False, ''Failed to fix '' @ c @ '' after '' @ py_str mx
                          @ '' attempts. Last error: '' @ err), d1)"
proof -
  have "retry_with_fixes E operation err c f mx d = retry_loop E c f mx (1 + 1) err (insert err {}) d1"
    using assms by (simp add: retry_with_fixes_def retry_loop_new)
  also have "\<dots> = Some (Inr (False, ''Failed to fix '' @ c @ '' after '' @ py_str mx
                          @ '' attempts. Last error: '' @ err), d1)"
    by (rule retry_loop_seen_fails) simp
  finally show ?thesis .
qed

lemma demonstrate_backend_failure:
  assumes "run_stage E ''Dependency installation'' ''dependencies'' (install_dependencies E) d
             = Some (Inr (True, m1), d1)"
    and "run_stage E ''Backend startup'' ''backend'' (start_backend E) d1 = Some (Inr (False, m2), d2)"
  shows "demonstrate_try E d = Some (Inr (False, m2, None), d2)"
    and "demonstrate E d = Some ((False, m2, None), cleanup E d2)"
  using assms by (simp_all add: demonstrate_def demonstrate_try_def)

lemma demonstrate_frontend_failure:
  assumes "run_stage E ''Dependency installation'' ''dependencies'' (install_dependencies E) d
             = Some (Inr (True, m1), d1)"
    and "run_stage E ''Backend startup'' ''backend'' (start_backend E) d1 = Some (Inr (True, m2), d2)"
    and "run_stage E ''Frontend startup'' ''frontend'' (start_frontend E) d2 = Some (Inr (False, m3), d3)"
  shows "demonstrate_try E d = Some (Inr (False, m3, None), d3)"
    and "demonstrate E d = Some ((False, m3, None), cleanup E d3)"
  using assms by (simp_all add: demonstrate_def demonstrate_try_def)

lemma install_nothing:
  assumes "\<forall>t p. \<not> exists_at E t p"
  shows "install_dependencies E d
           = (Inr (True, ''Dependencies installed successfully''), d\<lparr>tick := tick d + 2\<rparr>)"
  using assms
  by (simp add: install_dependencies_def install_dependencies_try_def os_path_exists_def Let_def)

lemma start_backend_fields:
  "frontend_process (snd (start_backend E d)) = frontend_process d"
  "fix_attempts (snd (start_backend E d)) = fix_attempts d"
  "backend_process (snd (start_backend E d))
     = (case popen_at E (tick d) [executable E, ''-m'', ''flask'', ''run'']
               (path_join (project_dir d) ''backend'') of
          Inr pid \<Rightarrow> Some pid | Inl e \<Rightarrow> backend_process d)"
  by (simp_all add: snd_start_backend start_backend_try_def subprocess_Popen_def Let_def
        snd_poll_result poll_ready_fields split: sum.splits)

lemma timeout_not_fixable:
  "analyze_and_fix_error E ''Backend failed to start within timeout'' ''backend'' d
     = (Inr (False, ''Unable to automatically fix this backend error''), ensure_fix_attempts d)"
  by (simp add: analyze_and_fix_error_def fix_backend_error_def fix_backend_try_def finish_fix_def)

lemma backend_timeout_stage:
  assumes "backend_launches E d" and "\<forall>i<30. not_ready (backend_probe_reply E d i)"
  shows "run_stage E ''Backend startup'' ''backend'' (start_backend E) d
           = Some (Inr (False, ''Failed to fix backend after 5 attempts. Last error: Backend failed to start within timeout''),
                   ensure_fix_attempts (snd (start_backend E d)))"
proof -
  from start_backend_timeout [OF assms] obtain d' where
    st: "start_backend E d = (Inr (False, ''Backend failed to start within timeout''), d')"
    by (elim exE conjE)
  have "retry_with_fixes E ''Backend startup'' ''Backend failed to start within timeout'' ''backend''
          (start_backend E) 5 d'
        = Some (Inr (False, ''Failed to fix '' @ ''backend'' @ '' after '' @ py_str 5
                          @ '' attempts. Last error: '' @ ''Backend failed to start within timeout''),
                ensure_fix_attempts d')"
    by (rule retry_unfixable [OF timeout_not_fixable]) simp
  with st show ?thesis by (simp add: run_stage_def py_str_samples)
qed

lemma no_files_stage:
  assumes "\<forall>t p. \<not> exists_at E t p"
  shows "run_stage E ''Dependency installation'' ''dependencies'' (install_dependencies E) d
           = Some (Inr (True, ''Dependencies installed successfully''), d\<lparr>tick := tick d + 2\<rparr>)"
  by (simp add: run_stage_def install_nothing [OF assms])

lemma probe_events_no_terminate:
  "list_all is_probe_event evs \<Longrightarrow> Terminate p \<notin> set evs"
  by (induction evs) auto

lemma refused_backend_run:
  assumes files: "\<forall>t p. \<not> exists_at E t p"
    and popen: "\<forall>t cmd cwd. popen_at E t cmd cwd = Inr (if cmd = [''npm'', ''start''] then 200 else 100)"
    and http: "\<forall>t m url. http_at E t m url = Inl (Exn RequestException ''Connection refused'')"
    and exe: "executable E = ''python3''"
  shows "\<exists>d2 evs. demonstrate_try E (init ''demo'' None)
            = Some (Inr (False, ''Failed to fix backend after 5 attempts. Last error: Backend failed to start within timeout'', None), d2)
          \<and> demonstrate E (init ''demo'' None)
            = Some ((False, ''Failed to fix backend after 5 attempts. Last error: Backend failed to start within timeout'', None), cleanup E d2)
          \<and> backend_process d2 = Some 100 \<and> frontend_process d2 = None
          \<and> events d2 = Popen [''python3'', ''-m'', ''flask'', ''run''] ''demo/backend''
                            [(''FLASK_APP'', ''app''), (''FLASK_ENV'', ''development'')] (Inr 100) # evs
          \<and> list_all is_probe_event evs"
proof -
  let ?d0 = "init ''demo'' None"
  let ?d1 = "?d0\<lparr>tick := tick ?d0 + 2\<rparr>"
  let ?d2 = "ensure_fix_attempts (snd (start_backend E ?d1))"
  have s1: "run_stage E ''Dependency installation'' ''dependencies'' (install_dependencies E) ?d0
              = Some (Inr (True, ''Dependencies installed successfully''), ?d1)"
    by (rule no_files_stage [OF files])
  have l: "backend_launches E ?d1" "\<forall>i<30. not_ready (backend_probe_reply E ?d1 i)"
    using popen http by (simp_all add: backend_launches_def backend_probe_reply_def not_ready_def)
  have s2: "run_stage E ''Backend startup'' ''backend'' (start_backend E) ?d1
              = Some (Inr (False, ''Failed to fix backend after 5 attempts. Last error: Backend failed to start within timeout''), ?d2)"
    by (rule backend_timeout_stage [OF l])
  from start_backend_events [of E ?d1] obtain evs where
    "events (snd (start_backend E ?d1))
           = events ?d1 @
             Popen [executable E, ''-m'', ''flask'', ''run''] (path_join (project_dir ?d1) ''backend'')
               [(''FLASK_APP'', ''app''), (''FLASK_ENV'', ''development'')]
               (popen_at E (tick ?d1) [executable E, ''-m'', ''flask'', ''run'']
                  (path_join (project_dir ?d1) ''backend'')) # evs"
    and pe: "list_all is_probe_event evs" by (elim exE conjE)
  then have ev: "events ?d2 = Popen [''python3'', ''-m'', ''flask'', ''run''] ''demo/backend''
                            [(''FLASK_APP'', ''app''), (''FLASK_ENV'', ''development'')] (Inr 100) # evs"
    using popen exe by (simp add: init_def path_join_def ensure_fix_attempts_def split: option.splits)
  have h: "backend_process ?d2 = Some 100" "frontend_process ?d2 = None"
    using popen by (simp_all add: ensure_fix_attempts_def start_backend_fields init_def
                      split: option.splits)
  from demonstrate_backend_failure [OF s1 s2] ev h pe show ?thesis
    by (intro exI [of _ ?d2] exI [of _ evs]) simp
qed

lemma never_up_facts:
  "\<forall>t p. \<not> exists_at never_up t p"
  "\<forall>t cmd cwd. popen_at never_up t cmd cwd = Inr (if cmd = [''npm'', ''start''] then 200 else 100)"
  "\<forall>t m url. http_at never_up t m url = Inl (Exn RequestException ''Connection refused'')"
  "executable never_up = ''python3''"
  by (simp_all add: never_up_def calm_def)



text \<open>
  C5, as the code has it. When the backend stage ends in failure (after the dependency
  stage succeeded), or the frontend stage does (after both earlier stages succeeded),
  \<open>demonstrate\<close> returns \<open>False\<close>, the message of the retry loop, which names the
  component and the last error, and \<open>None\<close> in place of the report. The final state is
  the state at the end of the failed stage with \<open>_cleanup\<close> applied, and \<open>_cleanup\<close>
  adds only its own events: no later stage is started.
\<close>

theorem stage_failure_stops_without_report:
  "(run_stage E ''Dependency installation'' ''dependencies'' (install_dependencies E) d
      = Some (Inr (True, m1), d1)
    \<and> run_stage E ''Backend startup'' ''backend'' (start_backend E) d1 = Some (Inr (False, m2), d2)
    \<longrightarrow> demonstrate E d = Some ((False, m2, None), cleanup E d2)
        \<and> (\<exists>last. m2 = ''Failed to fix backend after 5 attempts. Last error: '' @ last))
   \<and> (run_stage E ''Dependency installation'' ''dependencies'' (install_dependencies E) d
      = Some (Inr (True, m1), d1)
    \<and> run_stage E ''Backend startup'' ''backend'' (start_backend E) d1 = Some (Inr (True, m2), d2)
    \<and> run_stage E ''Frontend startup'' ''frontend'' (start_frontend E) d2 = Some (Inr (False, m3), d3)
    \<longrightarrow> demonstrate E d = Some ((False, m3, None), cleanup E d3)
        \<and> (\<exists>last. m3 = ''Failed to fix frontend after 5 attempts. Last error: '' @ last))
   \<and> (\<exists>evs. events (cleanup E d_end) = events d_end @ evs \<and> list_all is_cleanup_event evs)"
proof (intro conjI impI)
  assume "run_stage E ''Dependency installation'' ''dependencies'' (install_dependencies E) d
      = Some (Inr (True, m1), d1)
    \<and> run_stage E ''Backend startup'' ''backend'' (start_backend E) d1 = Some (Inr (False, m2), d2)"
  then show "demonstrate E d = Some ((False, m2, None), cleanup E d2)"
    and "\<exists>last. m2 = ''Failed to fix backend after 5 attempts. Last error: '' @ last"
    using demonstrate_backend_failure(2) [of E d m1 d1 m2 d2]
      run_stage_failure_message [of E "''Backend startup''" "''backend''" "start_backend E" d1 m2 d2]
    by simp_all
next
  assume "run_stage E ''Dependency installation'' ''dependencies'' (install_dependencies E) d
      = Some (Inr (True, m1), d1)
    \<and> run_stage E ''Backend startup'' ''backend'' (start_backend E) d1 = Some (Inr (True, m2), d2)
    \<and> run_stage E ''Frontend startup'' ''frontend'' (start_frontend E) d2 = Some (Inr (False, m3), d3)"
  then show "demonstrate E d = Some ((False, m3, None), cleanup E d3)"
    and "\<exists>last. m3 = ''Failed to fix frontend after 5 attempts. Last error: '' @ last"
    using demonstrate_frontend_failure(2) [of E d m1 d1 m2 d2 m3 d3]
      run_stage_failure_message [of E "''Frontend startup''" "''frontend''" "start_frontend E" d2 m3 d3]
    by simp_all
next
  from cleanup_result [of E d_end]
  show "\<exists>evs. events (cleanup E d_end) = events d_end @ evs \<and> list_all is_cleanup_event evs"
    by (elim exE conjE) (intro exI conjI)
qed

text \<open>On \<open>never_up\<close> the backend never answers: stage 2 fails and the run ends there.\<close>

theorem stage_failure_stops_without_report_witness:
  "map_option fst (demonstrate never_up (init ''demo'' None))
     = Some (False, ''Failed to fix backend after 5 attempts. Last error: Backend failed to start within timeout'', None)"
proof -
  let ?d0 = "init ''demo'' None"
  let ?d1 = "?d0\<lparr>tick := tick ?d0 + 2\<rparr>"
  let ?d2 = "ensure_fix_attempts (snd (start_backend never_up ?d1))"
  let ?m = "''Failed to fix backend after 5 attempts. Last error: Backend failed to start within timeout''"
  have s1: "run_stage never_up ''Dependency installation'' ''dependencies''
              (install_dependencies never_up) ?d0
              = Some (Inr (True, ''Dependencies installed successfully''), ?d1)"
    by (rule no_files_stage [OF never_up_facts(1)])
  have l: "backend_launches never_up ?d1" "\<forall>i<30. not_ready (backend_probe_reply never_up ?d1 i)"
    by (simp_all add: backend_launches_def backend_probe_reply_def not_ready_def never_up_def calm_def)
  have s2: "run_stage never_up ''Backend startup'' ''backend'' (start_backend never_up) ?d1
              = Some (Inr (False, ?m), ?d2)"
    by (rule backend_timeout_stage [OF l])
  from s1 s2 have "demonstrate never_up ?d0 = Some ((False, ?m, None), cleanup never_up ?d2)"
    by (rule conjunct1 [OF mp [OF conjunct1 [OF stage_failure_stops_without_report
          [where E = never_up and d = ?d0 and ?d1.0 = ?d1 and ?d2.0 = ?d2 and ?m1.0 = "''Dependencies installed successfully''"
             and ?m2.0 = ?m]] conjI]])
  then show ?thesis by simp
qed

text \<open>
  C5 as stated fails in its last part: on \<open>never_up\<close> the third component of what
  \<open>demonstrate\<close> returns is \<open>None\<close>, no report.
\<close>

theorem no_report_on_stage_failure_counterexample:
  "map_option (snd \<circ> snd \<circ> fst) (demonstrate never_up (init ''demo'' None)) = Some None"
proof -
  from refused_backend_run [OF never_up_facts] obtain d2 where
    "demonstrate never_up (init ''demo'' None)
            = Some ((False, ''Failed to fix backend after 5 attempts. Last error: Backend failed to start within timeout'', None), cleanup never_up d2)"
    by (elim exE conjE)
  then show ?thesis by simp
qed

lemma launched_append: "launched (xs @ ys) = launched xs @ launched ys"
  by (induction xs rule: launched.induct) simp_all


lemma launched_probe_events: "list_all is_probe_event evs \<Longrightarrow> launched evs = []"
  by (induction evs rule: launched.induct) simp_all






subsection \<open>A retried start replaces the handle\<close>

lemma probe_events_no_log: "list_all is_probe_event evs \<Longrightarrow> LogError m \<notin> set evs"
  by (induction evs) auto

lemma fix_port_in_use_state:
  assumes "\<not> py_in ''ModuleNotFoundError'' err" and "py_in ''Address already in use'' err"
    and "fix_attempts d = None"
  shows "analyze_and_fix_error E err ''backend'' d
            = (Inr (True, ''Changed backend port to '' @ py_str (backend_port d + 1)),
               d\<lparr>backend_port := backend_port d + 1,
                 backend_url := ''http://localhost:'' @ py_str (backend_port d + 1),
                 fix_attempts :=
                   Some [(''backend'', [''Changed backend port to '' @ py_str (backend_port d + 1)]),
                         (''frontend'', []), (''dependencies'', [])]\<rparr>)"
  using assms
  by (simp add: analyze_and_fix_error_def fix_backend_error_def fix_backend_try_def finish_fix_def
        record_fix_def ensure_fix_attempts_def Let_def)

lemma relaunch_first_start:
  assumes "tick d = 2" and "project_dir d = ''demo''"
  shows "start_backend relaunch d
           = (Inr (False, ''Failed to start backend: [Errno 98] Address already in use''),
              d\<lparr>backend_process := Some 102, tick := 4,
                events := events d @
                  [Popen [''python3'', ''-m'', ''flask'', ''run''] ''demo/backend''
                     [(''FLASK_APP'', ''app''), (''FLASK_ENV'', ''development'')] (Inr 102),
                   Http GET (backend_url d @ ''/health'') None
                     (Inl (Exn OtherException ''[Errno 98] Address already in use''))]\<rparr>)"
  using assms
  by (simp add: start_backend_def start_backend_try_def subprocess_Popen_def Let_def
        requests_call_def numeral_eq_Suc relaunch_def calm_def path_join_def)

lemma relaunch_second_start:
  assumes "tick d = 4" and "project_dir d = ''demo''"
  shows "\<exists>d' evs. start_backend relaunch d
             = (Inr (False, ''Backend failed to start within timeout''), d')
          \<and> backend_process d' = Some 104 \<and> frontend_process d' = frontend_process d
          \<and> events d' = events d @
                Popen [''python3'', ''-m'', ''flask'', ''run''] ''demo/backend''
                  [(''FLASK_APP'', ''app''), (''FLASK_ENV'', ''development'')] (Inr 104) # evs
          \<and> list_all is_probe_event evs"
proof -
  have l: "backend_launches relaunch d" "\<forall>i<30. not_ready (backend_probe_reply relaunch d i)"
    using assms
    by (simp_all add: backend_launches_def backend_probe_reply_def not_ready_def relaunch_def calm_def)
  from start_backend_timeout [OF l] obtain d' where
    st: "start_backend relaunch d = (Inr (False, ''Backend failed to start within timeout''), d')"
    by (elim exE conjE)
  then have d': "d' = snd (start_backend relaunch d)" by simp
  from start_backend_events [of relaunch d] obtain evs where
    "events (snd (start_backend relaunch d))
           = events d @
             Popen [executable relaunch, ''-m'', ''flask'', ''run''] (path_join (project_dir d) ''backend'')
               [(''FLASK_APP'', ''app''), (''FLASK_ENV'', ''development'')]
               (popen_at relaunch (tick d) [executable relaunch, ''-m'', ''flask'', ''run'']
                  (path_join (project_dir d) ''backend'')) # evs"
    and pe: "list_all is_probe_event evs" by (elim exE conjE)
  then have ev: "events d' = events d @
                Popen [''python3'', ''-m'', ''flask'', ''run''] ''demo/backend''
                  [(''FLASK_APP'', ''app''), (''FLASK_ENV'', ''development'')] (Inr 104) # evs"
    using assms by (simp add: d' relaunch_def calm_def path_join_def)
  have h: "backend_process d' = Some 104" "frontend_process d' = frontend_process d"
    using assms by (simp_all add: d' start_backend_fields relaunch_def calm_def)
  from st ev h pe show ?thesis by (intro exI [of _ d'] exI [of _ evs]) simp
qed

lemma relaunch_run:
  "\<exists>d2 evs. demonstrate relaunch (init ''demo'' None)
        = Some ((False, ''Failed to fix backend after 5 attempts. Last error: Backend failed to start within timeout'', None),
                cleanup relaunch d2)
     \<and> backend_process d2 = Some 104 \<and> frontend_process d2 = None
     \<and> events d2 =
          [Popen [''python3'', ''-m'', ''flask'', ''run''] ''demo/backend''
             [(''FLASK_APP'', ''app''), (''FLASK_ENV'', ''development'')] (Inr 102),
           Http GET ''http://localhost:5000/health'' None
             (Inl (Exn OtherException ''[Errno 98] Address already in use'')),
           Popen [''python3'', ''-m'', ''flask'', ''run''] ''demo/backend''
             [(''FLASK_APP'', ''app''), (''FLASK_ENV'', ''development'')] (Inr 104)] @ evs
     \<and> list_all is_probe_event evs"
proof -
  let ?d0 = "init ''demo'' None"
  let ?e1 = "''Failed to start backend: [Errno 98] Address already in use''"
  let ?e2 = "''Backend failed to start within timeout''"
  let ?final = "''Failed to fix backend after 5 attempts. Last error: Backend failed to start within timeout''"
  define d1 where "d1 = ?d0\<lparr>tick := tick ?d0 + 2\<rparr>"
  define dA where
    "dA = d1\<lparr>backend_process := Some 102, tick := 4,
                events := events d1 @
                  [Popen [''python3'', ''-m'', ''flask'', ''run''] ''demo/backend''
                     [(''FLASK_APP'', ''app''), (''FLASK_ENV'', ''development'')] (Inr 102),
                   Http GET (backend_url d1 @ ''/health'') None
                     (Inl (Exn OtherException ''[Errno 98] Address already in use''))]\<rparr>"
  define dB where
    "dB = dA\<lparr>backend_port := backend_port dA + 1,
                 backend_url := ''http://localhost:'' @ py_str (backend_port dA + 1),
                 fix_attempts :=
                   Some [(''backend'', [''Changed backend port to '' @ py_str (backend_port dA + 1)]),
                         (''frontend'', []), (''dependencies'', [])]\<rparr>"
  have f1: "tick d1 = 2" "project_dir d1 = ''demo''" "fix_attempts d1 = None" "events d1 = []"
    "frontend_process d1 = None" "backend_url d1 = ''http://localhost:5000''"
    by (simp_all add: d1_def init_def py_str_samples)
  have fA: "tick dA = 4" "project_dir dA = ''demo''" "fix_attempts dA = None"
    "frontend_process dA = None"
    "events dA = [Popen [''python3'', ''-m'', ''flask'', ''run''] ''demo/backend''
                     [(''FLASK_APP'', ''app''), (''FLASK_ENV'', ''development'')] (Inr 102),
                   Http GET ''http://localhost:5000/health'' None
                     (Inl (Exn OtherException ''[Errno 98] Address already in use''))]"
    by (simp_all add: dA_def f1)
  have fB: "tick dB = 4" "project_dir dB = ''demo''" "frontend_process dB = None"
    "events dB = events dA"
    by (simp_all add: dB_def fA)
  have s1: "run_stage relaunch ''Dependency installation'' ''dependencies''
              (install_dependencies relaunch) ?d0
              = Some (Inr (True, ''Dependencies installed successfully''), d1)"
    unfolding d1_def by (rule no_files_stage) (simp add: relaunch_def calm_def)
  have first: "start_backend relaunch d1 = (Inr (False, ?e1), dA)"
    unfolding dA_def by (rule relaunch_first_start) (simp_all add: f1)
  have fixd: "analyze_and_fix_error relaunch ?e1 ''backend'' dA
                = (Inr (True, ''Changed backend port to '' @ py_str (backend_port dA + 1)), dB)"
    unfolding dB_def by (rule fix_port_in_use_state) (simp_all add: fA)
  from relaunch_second_start [OF fB(1,2)] obtain dC evs where
    second: "start_backend relaunch dB = (Inr (False, ?e2), dC)"
    and hC: "backend_process dC = Some 104" "frontend_process dC = frontend_process dB"
    and evC: "events dC = events dB @
                Popen [''python3'', ''-m'', ''flask'', ''run''] ''demo/backend''
                  [(''FLASK_APP'', ''app''), (''FLASK_ENV'', ''development'')] (Inr 104) # evs"
    and pe: "list_all is_probe_event evs"
    by (elim exE conjE)
  let ?d2 = "ensure_fix_attempts dC"
  have "retry_loop relaunch ''backend'' (start_backend relaunch) 5 1 ?e1 {} dA
          = retry_loop relaunch ''backend'' (start_backend relaunch) 5 1 ?e2 (insert ?e1 {}) dC"
    by (subst retry_loop_new) (simp_all only: fixd second prod.case sum.case if_True if_False, simp_all)
  also have "\<dots> = retry_loop relaunch ''backend'' (start_backend relaunch) 5 (1 + 1) ?e2
                     (insert ?e2 (insert ?e1 {})) ?d2"
    by (subst retry_loop_new)
      (simp_all only: timeout_not_fixable prod.case sum.case if_True if_False, simp_all)
  also have "\<dots> = Some (Inr (False, ''Failed to fix '' @ ''backend'' @ '' after '' @ py_str 5
                          @ '' attempts. Last error: '' @ ?e2), ?d2)"
    by (rule retry_loop_seen_fails) simp
  finally have loop: "retry_loop relaunch ''backend'' (start_backend relaunch) 5 1 ?e1 {} dA
                        = Some (Inr (False, ?final), ?d2)"
    by (simp add: py_str_samples)
  have s2: "run_stage relaunch ''Backend startup'' ''backend'' (start_backend relaunch) d1
                      = Some (Inr (False, ?final), ?d2)"
    by (simp add: run_stage_def first retry_with_fixes_def loop)
  have h2: "backend_process ?d2 = Some 104" "frontend_process ?d2 = None"
    using hC fB by (simp_all add: ensure_fix_attempts_def split: option.splits)
  have ev2: "events ?d2 =
          [Popen [''python3'', ''-m'', ''flask'', ''run''] ''demo/backend''
             [(''FLASK_APP'', ''app''), (''FLASK_ENV'', ''development'')] (Inr 102),
           Http GET ''http://localhost:5000/health'' None
             (Inl (Exn OtherException ''[Errno 98] Address already in use'')),
           Popen [''python3'', ''-m'', ''flask'', ''run''] ''demo/backend''
             [(''FLASK_APP'', ''app''), (''FLASK_ENV'', ''development'')] (Inr 104)] @ evs"
    using evC by (simp add: ensure_fix_attempts_def fB fA split: option.splits)
  from demonstrate_backend_failure(2) [OF s1 s2] h2 ev2 pe show ?thesis
    by (intro exI [of _ ?d2] exI [of _ evs]) simp
qed

lemma cleanup_relaunch:
  assumes "backend_process d = Some 104" and "frontend_process d = None"
  shows "events (cleanup relaunch d) = events d @ [ChildrenOf 104 (Inr []), Terminate 104]"
  using assms
  by (simp add: cleanup_def cleanup_try_def terminate_tree_def psutil_children_def
        process_terminate_def Let_def relaunch_def calm_def)

text \<open>
  The condition on held processes is needed. Line 54 assigns \<open>self.backend_process\<close>
  each time line 228 runs the start again, and lines 164-172 terminate only the
  process held last. On \<open>relaunch\<close> the run launches the backends 102 and 104; the
  cleanup raises nothing and logs nothing, it terminates 104, and no \<open>terminate\<close>
  call is ever made for 102.
\<close>

lemma relaunch_leaves_first_backend:
  "map_option (\<lambda>rd. (launched (events (snd rd)),
                      Terminate 102 \<in> set (events (snd rd)),
                      Terminate 104 \<in> set (events (snd rd)),
                      \<exists>m. LogError m \<in> set (events (snd rd))))
     (demonstrate relaunch (init ''demo'' None)) = Some ([102, 104], False, True, False)"
proof -
  from relaunch_run obtain d2 evs where
    run: "demonstrate relaunch (init ''demo'' None)
        = Some ((False, ''Failed to fix backend after 5 attempts. Last error: Backend failed to start within timeout'', None),
                cleanup relaunch d2)"
    and h: "backend_process d2 = Some 104" "frontend_process d2 = None"
    and ev: "events d2 =
          [Popen [''python3'', ''-m'', ''flask'', ''run''] ''demo/backend''
             [(''FLASK_APP'', ''app''), (''FLASK_ENV'', ''development'')] (Inr 102),
           Http GET ''http://localhost:5000/health'' None
             (Inl (Exn OtherException ''[Errno 98] Address already in use'')),
           Popen [''python3'', ''-m'', ''flask'', ''run''] ''demo/backend''
             [(''FLASK_APP'', ''app''), (''FLASK_ENV'', ''development'')] (Inr 104)] @ evs"
    and pe: "list_all is_probe_event evs"
    by (elim exE conjE)
  from cleanup_relaunch [OF h] ev probe_events_no_terminate [OF pe] probe_events_no_log [OF pe]
    launched_probe_events [OF pe]
  show ?thesis
    by (simp add: run launched_append)
qed

end
